theory Spec2Isabelle
  imports Complex_Main "HOL-Library.Word"
begin

unbundle bit_operations_syntax

section \<open>Java and C \<open>float\<close> values\<close>

text \<open>
  A \<open>float\<close> of Java and of C is an IEEE 754 single-precision number: a finite number, one
  of the two infinities, or NaN. The finite numbers are the reals \<open>m * 2 ^ e\<close> with an
  integer \<open>m\<close> of magnitude below \<open>2 ^ 24\<close> and \<open>-149 \<le> e \<le> 104\<close>. The result of an
  arithmetic operation is the exact result rounded to the nearest of them, a tie going to the
  even \<open>m\<close>, and to an infinity when the rounded magnitude reaches \<open>2 ^ 128\<close>. A value
  \<open>Fin a\<close> stands for a float when \<open>a\<close> is one of these reals; every operation below
  answers such a value, an infinity or NaN. The two zeros are one value here, so a division
  by zero takes its sign from the dividend alone; the divisors that can be zero in this
  program are converted from an \<open>int\<close>, which gives the positive zero. A float division by
  zero raises nothing.
\<close>

datatype jfloat = Fin real | PInf | NInf | NaN

definition signed_inf :: "bool \<Rightarrow> jfloat" where
  "signed_inf positive = (if positive then PInf else NInf)"

definition pow2 :: "int \<Rightarrow> real" where
  "pow2 e = (if 0 \<le> e then 2 ^ nat e else 1 / 2 ^ nat (- e))"

text \<open>
  The exponent \<open>e\<close> of the float nearest to a magnitude \<open>a\<close>: the one with
  \<open>2 ^ 23 * 2 ^ e \<le> a < 2 ^ 24 * 2 ^ e\<close>, but not below -149 (the subnormal numbers) and
  not above 104. It is searched upwards from 1 or downwards from 0.
\<close>

function exponent_up :: "real \<Rightarrow> int \<Rightarrow> int" where
  "exponent_up a e = (if a < 16777216 * pow2 e \<or> 104 \<le> e then e else exponent_up a (e + 1))"
  by pat_completeness auto
termination
  by (relation "measure (\<lambda>(a, e). nat (104 - e))") auto

function exponent_down :: "real \<Rightarrow> int \<Rightarrow> int" where
  "exponent_down a e = (if 8388608 * pow2 e \<le> a \<or> e \<le> - 149 then e else exponent_down a (e - 1))"
  by pat_completeness auto
termination
  by (relation "measure (\<lambda>(a, e). nat (e + 149))") auto

declare exponent_up.simps [simp del] exponent_down.simps [simp del]

definition float_exponent :: "real \<Rightarrow> int" where
  "float_exponent a = (if 16777216 \<le> a then exponent_up a 1 else exponent_down a 0)"

definition round_half_even :: "real \<Rightarrow> int" where
  "round_half_even q =
     (let f = \<lfloor>q\<rfloor>; r = q - of_int f
      in if r < 1 / 2 then f else if 1 / 2 < r then f + 1 else if even f then f else f + 1)"

text \<open>Rounding a real to the nearest float.\<close>

definition fround :: "real \<Rightarrow> jfloat" where
  "fround x =
     (if x = 0 then Fin 0
      else
        (let a = \<bar>x\<bar>;
             e = float_exponent a;
             m = round_half_even (a / pow2 e);
             r = of_int m * pow2 e
         in if 2 ^ 128 \<le> r then signed_inf (0 < x) else Fin (if 0 < x then r else - r)))"

fun jneg :: "jfloat \<Rightarrow> jfloat" where
  "jneg (Fin a) = Fin (- a)"
| "jneg PInf = NInf"
| "jneg NInf = PInf"
| "jneg NaN = NaN"

fun jadd :: "jfloat \<Rightarrow> jfloat \<Rightarrow> jfloat" where
  "jadd (Fin a) (Fin b) = fround (a + b)"
| "jadd NaN _ = NaN"
| "jadd _ NaN = NaN"
| "jadd PInf NInf = NaN"
| "jadd NInf PInf = NaN"
| "jadd PInf _ = PInf"
| "jadd _ PInf = PInf"
| "jadd NInf _ = NInf"
| "jadd _ NInf = NInf"

definition jsub :: "jfloat \<Rightarrow> jfloat \<Rightarrow> jfloat" where
  "jsub a b = jadd a (jneg b)"

fun jmul :: "jfloat \<Rightarrow> jfloat \<Rightarrow> jfloat" where
  "jmul (Fin a) (Fin b) = fround (a * b)"
| "jmul NaN _ = NaN"
| "jmul _ NaN = NaN"
| "jmul (Fin a) PInf = (if a = 0 then NaN else signed_inf (0 < a))"
| "jmul (Fin a) NInf = (if a = 0 then NaN else signed_inf (a < 0))"
| "jmul PInf (Fin b) = (if b = 0 then NaN else signed_inf (0 < b))"
| "jmul NInf (Fin b) = (if b = 0 then NaN else signed_inf (b < 0))"
| "jmul PInf PInf = PInf"
| "jmul NInf NInf = PInf"
| "jmul PInf NInf = NInf"
| "jmul NInf PInf = NInf"

fun jdiv :: "jfloat \<Rightarrow> jfloat \<Rightarrow> jfloat" where
  "jdiv (Fin a) (Fin b) =
     (if b = 0 then (if a = 0 then NaN else signed_inf (0 < a)) else fround (a / b))"
| "jdiv NaN _ = NaN"
| "jdiv _ NaN = NaN"
| "jdiv (Fin a) PInf = Fin 0"
| "jdiv (Fin a) NInf = Fin 0"
| "jdiv PInf (Fin b) = signed_inf (0 \<le> b)"
| "jdiv NInf (Fin b) = signed_inf (b < 0)"
| "jdiv PInf PInf = NaN"
| "jdiv PInf NInf = NaN"
| "jdiv NInf PInf = NaN"
| "jdiv NInf NInf = NaN"

text \<open>Comparisons: every comparison with NaN is false, except \<open>!=\<close>.\<close>

fun jlt :: "jfloat \<Rightarrow> jfloat \<Rightarrow> bool" where
  "jlt (Fin a) (Fin b) = (a < b)"
| "jlt NaN _ = False"
| "jlt _ NaN = False"
| "jlt _ NInf = False"
| "jlt PInf _ = False"
| "jlt NInf _ = True"
| "jlt _ PInf = True"

definition jgt :: "jfloat \<Rightarrow> jfloat \<Rightarrow> bool" where
  "jgt a b = jlt b a"

definition jle :: "jfloat \<Rightarrow> jfloat \<Rightarrow> bool" where
  "jle a b = (a \<noteq> NaN \<and> b \<noteq> NaN \<and> \<not> jlt b a)"

definition jeq :: "jfloat \<Rightarrow> jfloat \<Rightarrow> bool" where
  "jeq a b = (a \<noteq> NaN \<and> b \<noteq> NaN \<and> a = b)"

definition jne :: "jfloat \<Rightarrow> jfloat \<Rightarrow> bool" where
  "jne a b = (\<not> jeq a b)"

text \<open>
  The conversion \<open>(float) n\<close> of an \<open>int\<close> rounds as well: it is exact up to \<open>2 ^ 24\<close>
  in magnitude.
\<close>

definition i2f :: "int \<Rightarrow> jfloat" where
  "i2f n = fround (of_int n)"

text \<open>
  The narrowing cast \<open>(int) f\<close> of Java: NaN gives 0, values beyond the range of \<open>int\<close>
  saturate, everything else is truncated towards zero.
\<close>

definition INT_MAX :: int where
  "INT_MAX = 2147483647"

definition INT_MIN :: int where
  "INT_MIN = - 2147483648"

fun f2i :: "jfloat \<Rightarrow> int" where
  "f2i NaN = 0"
| "f2i PInf = INT_MAX"
| "f2i NInf = INT_MIN"
| "f2i (Fin a) =
     (let t = (if 0 \<le> a then \<lfloor>a\<rfloor> else \<lceil>a\<rceil>)
      in if INT_MAX < t then INT_MAX else if t < INT_MIN then INT_MIN else t)"

text \<open>Java \<open>int\<close> arithmetic wraps around in 32 bits.\<close>

definition jint :: "int \<Rightarrow> int" where
  "jint n = (n + 2147483648) mod 4294967296 - 2147483648"


section \<open>The native client: \<open>lorie/android.c\<close>\<close>

subsection \<open>The xcb library as seen by the client\<close>

text \<open>
  A connection is a handle. Every call the client makes on the library, on the log or back
  into Java is recorded, in order, in the \<open>calls\<close> of the global state; what the library
  and the server answer is an input of the model.
\<close>

type_synonym xcb_connection = nat

record xcb_generic_error =
  error_code :: int
  major_code :: int
  minor_code :: int

datatype XcbCall =
    LogConnError string
  | LogConnSuccessful
  | LogResponse int
  | LogClipboardChanged
  | LogGotSelection
  | LogClipboardSize int
  | LogMouseEvent
  | LogParsedError xcb_generic_error
  | ErrorsContextFree xcb_connection
  | ErrorsContextNew xcb_connection
  | Disconnect xcb_connection
  | QueryExtension xcb_connection string
  | XfixesQueryVersion xcb_connection int int
  | InternAtom xcb_connection bool string
  | SelectSelectionInput xcb_connection int int int
  | GenerateId xcb_connection
  | CreateWindow xcb_connection int int
  | Flush xcb_connection
  | ConvertSelection xcb_connection int int int int int
  | GetProperty xcb_connection int int int int int
  | SetClipboardText string
  | ScreenSizeChange xcb_connection int int
  | MouseEvent xcb_connection jfloat jfloat int bool bool
  | TouchEvent xcb_connection int int int int
  | KeyEvent xcb_connection int bool
  | UnicodeEvent xcb_connection int

definition XCB_XFIXES_SELECTION_NOTIFY :: int where
  "XCB_XFIXES_SELECTION_NOTIFY = 0"

definition XCB_SELECTION_NOTIFY :: int where
  "XCB_SELECTION_NOTIFY = 31"

definition XCB_ATOM_STRING :: int where
  "XCB_ATOM_STRING = 31"

definition XCB_ATOM_ANY :: int where
  "XCB_ATOM_ANY = 0"

definition XCB_CURRENT_TIME :: int where
  "XCB_CURRENT_TIME = 0"

definition XCB_XFIXES_SELECTION_EVENT_MASK_SET_SELECTION_OWNER :: int where
  "XCB_XFIXES_SELECTION_EVENT_MASK_SET_SELECTION_OWNER = 1"

subsection \<open>The static variables of the file\<close>

record Globals =
  conn :: "xcb_connection option"
  xfixes_first_event :: int
  err_ctx :: "xcb_connection option"
  win :: int
  prop_sel :: int
  atom_clipboard :: int
  clipboard_sync_enabled :: bool
  calls :: "XcbCall list"

definition initial_globals :: Globals where
  "initial_globals = \<lparr> conn = None, xfixes_first_event = 0, err_ctx = None, win = 0,
     prop_sel = 0, atom_clipboard = 0, clipboard_sync_enabled = False, calls = [] \<rparr>"

definition call :: "XcbCall \<Rightarrow> Globals \<Rightarrow> Globals" where
  "call c g = g\<lparr> calls := calls g @ [c] \<rparr>"

fun parse_error :: "xcb_generic_error option \<Rightarrow> Globals \<Rightarrow> Globals" where
  "parse_error None g = g"
| "parse_error (Some e) g = call (LogParsedError e) g"

subsection \<open>Connection setup\<close>

text \<open>
  What the transport and the server answer during \<open>connect\<close>: the candidate connection
  that \<open>xcb_connect_to_fd\<close> returns (never NULL), its error code, and for each
  negotiation step the error and the reply (either may be absent).
\<close>

record ConnectEnv =
  new_conn :: xcb_connection
  conn_err :: int
  query_extension_err :: "xcb_generic_error option"
  query_extension_reply :: "int option"
  query_version_err :: "xcb_generic_error option"
  clipboard_atom_err :: "xcb_generic_error option"
  clipboard_atom_reply :: "int option"
  prop_atom_err :: "xcb_generic_error option"
  prop_atom_reply :: "int option"
  select_input_err :: "xcb_generic_error option"
  create_window_err :: "xcb_generic_error option"
  root :: int
  generated_id :: int

definition conn_err_name :: "int \<Rightarrow> string" where
  "conn_err_name e =
     (if e = 1 then ''XCB_CONN_ERROR''
      else if e = 2 then ''XCB_CONN_CLOSED_EXT_NOTSUPPORTED''
      else if e = 3 then ''XCB_CONN_CLOSED_MEM_INSUFFICIENT''
      else if e = 4 then ''XCB_CONN_CLOSED_REQ_LEN_EXCEED''
      else if e = 5 then ''XCB_CONN_CLOSED_PARSE_ERR''
      else if e = 6 then ''XCB_CONN_CLOSED_INVALID_SCREEN''
      else if e = 7 then ''XCB_CONN_CLOSED_FDPASSING_FAILED''
      else ''UNKNOWN'')"

definition Java_com_termux_x11_MainActivity_connect :: "ConnectEnv \<Rightarrow> Globals \<Rightarrow> Globals" where
  "Java_com_termux_x11_MainActivity_connect env g0 =
     (let c = new_conn env;
          g = (if conn_err env \<noteq> 0 then call (LogConnError (conn_err_name (conn_err env))) g0
               else g0);
          g = (case err_ctx g of Some x \<Rightarrow> call (ErrorsContextFree x) g | None \<Rightarrow> g);
          g = (case conn g of Some old \<Rightarrow> call (Disconnect old) g | None \<Rightarrow> g);
          g = g\<lparr> conn := Some c \<rparr>;
          g = (call (ErrorsContextNew c) g)\<lparr> err_ctx := Some c \<rparr>;
          g = call LogConnSuccessful g;
          g = call (QueryExtension c ''XFIXES'') g;
          g = parse_error (query_extension_err env) g;
          g = (case query_extension_reply env of
                 Some first_event \<Rightarrow> g\<lparr> xfixes_first_event := first_event \<rparr>
               | None \<Rightarrow> g);
          g = call (XfixesQueryVersion c 4 0) g;
          g = parse_error (query_version_err env) g;
          g = call (InternAtom c False ''CLIPBOARD'') g;
          g = parse_error (clipboard_atom_err env) g;
          g = (case clipboard_atom_reply env of
                 Some a \<Rightarrow> g\<lparr> atom_clipboard := a \<rparr>
               | None \<Rightarrow> g);
          g = call (InternAtom c False ''TERMUX_X11_CLIP'') g;
          g = parse_error (prop_atom_err env) g;
          g = (case prop_atom_reply env of
                 Some a \<Rightarrow> g\<lparr> prop_sel := a \<rparr>
               | None \<Rightarrow> g);
          g = call (SelectSelectionInput c (root env) (atom_clipboard g)
                      XCB_XFIXES_SELECTION_EVENT_MASK_SET_SELECTION_OWNER) g;
          g = parse_error (select_input_err env) g;
          g = (call (GenerateId c) g)\<lparr> win := generated_id env \<rparr>;
          g = call (CreateWindow c (win g) (root env)) g;
          g = parse_error (create_window_err env) g
      in call (Flush c) g)"

subsection \<open>The event loop\<close>

text \<open>
  One event of the queue that \<open>xcb_poll_for_event\<close> drains: its \<open>response_type\<close> (a
  \<open>uint8_t\<close>), the event read as an error (used when the response type is 0), and what the
  server answers to the two property requests the event may trigger: the error and the
  reply of each, the first reply reduced to its \<open>bytes_after\<close>, the second to its value.
\<close>

record XEvent =
  response_type :: int
  as_error :: xcb_generic_error
  size_err :: "xcb_generic_error option"
  size_reply :: "int option"
  data_err :: "xcb_generic_error option"
  data_reply :: "string option"

definition selection_response :: "xcb_connection \<Rightarrow> XEvent \<Rightarrow> Globals \<Rightarrow> Globals" where
  "selection_response c ev g0 =
     (let g = call LogGotSelection g0;
          g = call (GetProperty c (win g) (prop_sel g) XCB_ATOM_ANY 0 0) g;
          g = parse_error (size_err ev) g;
          data_size = (case size_reply ev of Some n \<Rightarrow> n | None \<Rightarrow> 0);
          g = call (LogClipboardSize data_size) g
      in if data_size \<noteq> 0 then
           (let g = call (GetProperty c (win g) (prop_sel g) XCB_ATOM_ANY 0 data_size) g;
                g = parse_error (data_err ev) g
            in case data_reply ev of
                 Some text \<Rightarrow> call (SetClipboardText text) g
               | None \<Rightarrow> g)
         else g)"

definition handle_event :: "xcb_connection \<Rightarrow> XEvent \<Rightarrow> Globals \<Rightarrow> Globals" where
  "handle_event c ev g0 =
     (let g = call (LogResponse (response_type ev)) g0
      in if response_type ev = 0 then parse_error (Some (as_error ev)) g
         else if response_type ev = xfixes_first_event g + XCB_XFIXES_SELECTION_NOTIFY then
           (let g = call LogClipboardChanged g
            in if clipboard_sync_enabled g then
                 call (Flush c)
                   (call (ConvertSelection c (win g) (atom_clipboard g) XCB_ATOM_STRING
                            (prop_sel g) XCB_CURRENT_TIME) g)
               else g)
         else if (response_type ev AND NOT 128) = XCB_SELECTION_NOTIFY then
           selection_response c ev g
         else g)"

text \<open>The \<open>while\<close> loop over the events that are pending.\<close>

fun poll_loop :: "xcb_connection \<Rightarrow> XEvent list \<Rightarrow> Globals \<Rightarrow> Globals" where
  "poll_loop c [] g = g"
| "poll_loop c (ev # evs) g = poll_loop c evs (handle_event c ev g)"

definition Java_com_termux_x11_MainActivity_handleXEvents :: "XEvent list \<Rightarrow> Globals \<Rightarrow> Globals" where
  "Java_com_termux_x11_MainActivity_handleXEvents pending g =
     (case conn g of None \<Rightarrow> g | Some c \<Rightarrow> poll_loop c pending g)"

definition Java_com_termux_x11_MainActivity_setClipboardSyncEnabled :: "bool \<Rightarrow> Globals \<Rightarrow> Globals" where
  "Java_com_termux_x11_MainActivity_setClipboardSyncEnabled enabled g =
     g\<lparr> clipboard_sync_enabled := enabled \<rparr>"

subsection \<open>The encoders\<close>

definition Java_com_termux_x11_MainActivity_sendWindowChange :: "int \<Rightarrow> int \<Rightarrow> Globals \<Rightarrow> Globals" where
  "Java_com_termux_x11_MainActivity_sendWindowChange width height g =
     (case conn g of
        Some c \<Rightarrow> call (Flush c) (call (ScreenSizeChange c width height) g)
      | None \<Rightarrow> g)"

definition Java_com_termux_x11_MainActivity_sendMouseEvent ::
  "jfloat \<Rightarrow> jfloat \<Rightarrow> int \<Rightarrow> bool \<Rightarrow> bool \<Rightarrow> Globals \<Rightarrow> Globals" where
  "Java_com_termux_x11_MainActivity_sendMouseEvent x y which_button button_down relative g =
     (case conn g of
        Some c \<Rightarrow>
          call (Flush c)
            (call (MouseEvent c x y which_button button_down relative) (call LogMouseEvent g))
      | None \<Rightarrow> g)"

definition Java_com_termux_x11_MainActivity_sendTouchEvent ::
  "int \<Rightarrow> int \<Rightarrow> int \<Rightarrow> int \<Rightarrow> Globals \<Rightarrow> Globals" where
  "Java_com_termux_x11_MainActivity_sendTouchEvent action id' x y g =
     (case conn g of
        Some c \<Rightarrow>
          (if 0 \<le> action then call (TouchEvent c action id' x y) g
           else call (Flush c) g)
      | None \<Rightarrow> g)"

text \<open>
  The table \<open>android_to_linux_keycode\<close> is declared in a header that is not part of the
  sources at hand: it is a parameter. Reading it outside its bounds is undefined in C and
  is an error of the model.
\<close>

datatype native_error = TableIndexOutOfBounds

definition Java_com_termux_x11_MainActivity_sendKeyEvent ::
  "int list \<Rightarrow> int \<Rightarrow> int \<Rightarrow> bool \<Rightarrow> Globals \<Rightarrow> native_error + (bool \<times> Globals)" where
  "Java_com_termux_x11_MainActivity_sendKeyEvent android_to_linux_keycode scan_code key_code key_down g =
     (case conn g of
        Some c \<Rightarrow>
          (if scan_code \<noteq> 0 then
             Inr (True, call (Flush c) (call (KeyEvent c (scan_code + 8) key_down) g))
           else if 0 \<le> key_code \<and> key_code < int (length android_to_linux_keycode) then
             Inr (True, call (Flush c)
                    (call (KeyEvent c (android_to_linux_keycode ! nat key_code + 8) key_down) g))
           else Inl TableIndexOutOfBounds)
      | None \<Rightarrow> Inr (True, g))"

definition Java_com_termux_x11_MainActivity_sendUnicodeEvent :: "int \<Rightarrow> Globals \<Rightarrow> Globals" where
  "Java_com_termux_x11_MainActivity_sendUnicodeEvent unicode g =
     (case conn g of
        Some c \<Rightarrow> call (Flush c) (call (UnicodeEvent c unicode) g)
      | None \<Rightarrow> g)"

subsection \<open>Observations on the recorded calls\<close>

fun is_convert :: "XcbCall \<Rightarrow> bool" where
  "is_convert (ConvertSelection _ _ _ _ _ _) = True"
| "is_convert _ = False"

text \<open>
  A selection-owner-change notification is an event whose response type is the first event
  of the XFIXES extension plus \<open>XCB_XFIXES_SELECTION_NOTIFY\<close>; response type 0 is always
  an error.
\<close>

definition selection_owner_change :: "Globals \<Rightarrow> XEvent \<Rightarrow> bool" where
  "selection_owner_change g ev =
     (response_type ev \<noteq> 0 \<and>
      response_type ev = xfixes_first_event g + XCB_XFIXES_SELECTION_NOTIFY)"

definition same_settings :: "Globals \<Rightarrow> Globals \<Rightarrow> bool" where
  "same_settings g g' =
     (conn g' = conn g \<and> xfixes_first_event g' = xfixes_first_event g \<and> err_ctx g' = err_ctx g \<and>
      win g' = win g \<and> prop_sel g' = prop_sel g \<and> atom_clipboard g' = atom_clipboard g \<and>
      clipboard_sync_enabled g' = clipboard_sync_enabled g)"

text \<open>Concrete inputs used below.\<close>

definition demo_globals :: Globals where
  "demo_globals = initial_globals\<lparr> conn := Some 1, xfixes_first_event := 87, win := 5,
     prop_sel := 301, atom_clipboard := 300 \<rparr>"

definition owner_change_event :: XEvent where
  "owner_change_event = \<lparr> response_type = 87,
     as_error = \<lparr> error_code = 0, major_code = 0, minor_code = 0 \<rparr>,
     size_err = None, size_reply = None, data_err = None, data_reply = None \<rparr>"

definition failing_env :: ConnectEnv where
  "failing_env = \<lparr> new_conn = 1, conn_err = 1,
     query_extension_err = None, query_extension_reply = None, query_version_err = None,
     clipboard_atom_err = None, clipboard_atom_reply = None,
     prop_atom_err = None, prop_atom_reply = None,
     select_input_err = None, create_window_err = None, root = 0, generated_id = 0 \<rparr>"

section \<open>The touch input handler: \<open>TouchInputHandler.java\<close>\<close>

subsection \<open>Android types the handler uses\<close>

type_synonym PointF = "jfloat \<times> jfloat"

text \<open>\<open>android.graphics.Rect\<close> and its \<open>contains(x, y)\<close>: an empty rectangle contains nothing.\<close>

record Rect =
  rect_left :: int
  rect_top :: int
  rect_right :: int
  rect_bottom :: int

definition Rect_contains :: "Rect \<Rightarrow> int \<Rightarrow> int \<Rightarrow> bool" where
  "Rect_contains r x y =
     (rect_left r < rect_right r \<and> rect_top r < rect_bottom r \<and>
      rect_left r \<le> x \<and> x < rect_right r \<and> rect_top r \<le> y \<and> y < rect_bottom r)"

text \<open>
  \<open>android.graphics.Matrix\<close>. The handler builds matrices with \<open>new Matrix()\<close>,
  \<open>setScale\<close> and \<open>invert\<close> only, so every matrix it holds is a scaling about the
  origin: the two scale factors are kept, the other entries are those of the identity.
  \<open>invert\<close> answers whether the matrix can be inverted and writes the inverse to its
  argument only then; a scaling is taken to be invertible when both factors are finite and
  not zero.
\<close>

record Matrix =
  scaleX :: jfloat
  scaleY :: jfloat

definition new_Matrix :: Matrix where
  "new_Matrix = \<lparr> scaleX = Fin 1, scaleY = Fin 1 \<rparr>"

definition setScale :: "jfloat \<Rightarrow> jfloat \<Rightarrow> Matrix \<Rightarrow> Matrix" where
  "setScale sx sy m = \<lparr> scaleX = sx, scaleY = sy \<rparr>"

fun invertible_factor :: "jfloat \<Rightarrow> bool" where
  "invertible_factor (Fin a) = (a \<noteq> 0)"
| "invertible_factor _ = False"

definition invert :: "Matrix \<Rightarrow> Matrix \<Rightarrow> bool \<times> Matrix" where
  "invert m dst =
     (if invertible_factor (scaleX m) \<and> invertible_factor (scaleY m)
      then (True, \<lparr> scaleX = jdiv (Fin 1) (scaleX m), scaleY = jdiv (Fin 1) (scaleY m) \<rparr>)
      else (False, dst))"

definition mapPoints :: "Matrix \<Rightarrow> PointF \<Rightarrow> PointF" where
  "mapPoints m p = (jmul (scaleX m) (fst p), jmul (scaleY m) (snd p))"

definition mapVectors :: "Matrix \<Rightarrow> PointF \<Rightarrow> PointF" where
  "mapVectors m p = (jmul (scaleX m) (fst p), jmul (scaleY m) (snd p))"

text \<open>\<open>android.view.MotionEvent\<close>: the constants and the getters the handler reads.\<close>

definition ACTION_DOWN :: int where "ACTION_DOWN = 0"
definition ACTION_UP :: int where "ACTION_UP = 1"
definition ACTION_MOVE :: int where "ACTION_MOVE = 2"
definition ACTION_POINTER_DOWN :: int where "ACTION_POINTER_DOWN = 5"
definition ACTION_HOVER_MOVE :: int where "ACTION_HOVER_MOVE = 7"
definition ACTION_SCROLL :: int where "ACTION_SCROLL = 8"
definition ACTION_BUTTON_PRESS :: int where "ACTION_BUTTON_PRESS = 11"
definition ACTION_BUTTON_RELEASE :: int where "ACTION_BUTTON_RELEASE = 12"

definition TOOL_TYPE_FINGER :: int where "TOOL_TYPE_FINGER = 1"
definition TOOL_TYPE_STYLUS :: int where "TOOL_TYPE_STYLUS = 2"
definition TOOL_TYPE_MOUSE :: int where "TOOL_TYPE_MOUSE = 3"
definition TOOL_TYPE_ERASER :: int where "TOOL_TYPE_ERASER = 4"

definition BUTTON_PRIMARY :: int where "BUTTON_PRIMARY = 1"
definition BUTTON_SECONDARY :: int where "BUTTON_SECONDARY = 2"
definition BUTTON_TERTIARY :: int where "BUTTON_TERTIARY = 4"

definition SOURCE_MOUSE :: int where "SOURCE_MOUSE = 8194"
definition SOURCE_TOUCHSCREEN :: int where "SOURCE_TOUCHSCREEN = 4098"
definition SOURCE_TOUCHPAD :: int where "SOURCE_TOUCHPAD = 1048584"

text \<open>
  An event holds its action (the masked action in the low byte, the index of the acting
  pointer in the byte above), the tool type of each of its pointers, the coordinates of its
  first pointer and the other values the handler asks for.
\<close>

record MotionEvent =
  getAction :: int
  toolTypes :: "int list"
  getSource :: int
  getX :: jfloat
  getY :: jfloat
  getButtonState :: int
  getActionButton :: int
  getFlags :: int
  AXIS_VSCROLL :: jfloat
  AXIS_HSCROLL :: jfloat
  AXIS_RELATIVE_X :: jfloat
  AXIS_RELATIVE_Y :: jfloat

definition getActionMasked :: "MotionEvent \<Rightarrow> int" where
  "getActionMasked e = (getAction e AND 255)"

definition getActionIndex :: "MotionEvent \<Rightarrow> int" where
  "getActionIndex e = drop_bit 8 (getAction e AND 65280)"

definition getPointerCount :: "MotionEvent \<Rightarrow> int" where
  "getPointerCount e = int (length (toolTypes e))"

text \<open>\<open>getToolType\<close> throws for an index that is not one of the event's pointers.\<close>

datatype input_error = IllegalArgumentException

definition getToolType :: "MotionEvent \<Rightarrow> int \<Rightarrow> int option" where
  "getToolType e i =
     (if 0 \<le> i \<and> i < getPointerCount e then Some (toolTypes e ! nat i) else None)"

record View =
  isFocused :: bool
  hasPointerCapture :: bool

subsection \<open>Collaborators of the handler\<close>

text \<open>
  Modelled from the spec: the class \<open>RenderData\<close> (the RenderState of the spec) is not
  among the sources at hand. It holds the two sizes, the transform and the cursor position,
  a point in image space with the invariant that it is always clamped to
  \<open>[0, imageWidth] \<times> [0, imageHeight]\<close> (section 3 of the spec). Every write of the
  position by the handler goes through \<open>setCursorPosition\<close>, so it is the setter that
  keeps the invariant: it clamps the point it is given to the image, stores it, and answers
  whether the position changed, which is how \<open>moveCursor\<close> uses the answer. A coordinate
  that is not a number is stored as 0. \<open>getCursorPosition\<close> answers a copy of the position.
\<close>

record RenderData =
  screenWidth :: int
  screenHeight :: int
  imageWidth :: int
  imageHeight :: int
  transform :: Matrix
  cursorPosition :: PointF

definition new_RenderData :: RenderData where
  "new_RenderData = \<lparr> screenWidth = 0, screenHeight = 0, imageWidth = 0, imageHeight = 0,
     transform = new_Matrix, cursorPosition = (Fin 0, Fin 0) \<rparr>"

definition getCursorPosition :: "RenderData \<Rightarrow> PointF" where
  "getCursorPosition rd = cursorPosition rd"

definition clamp :: "jfloat \<Rightarrow> jfloat \<Rightarrow> jfloat \<Rightarrow> jfloat" where
  "clamp lo hi x = (if jle lo x then (if jle x hi then x else hi) else lo)"

definition clamp_to_image :: "RenderData \<Rightarrow> PointF \<Rightarrow> PointF" where
  "clamp_to_image rd p =
     (clamp (Fin 0) (i2f (imageWidth rd)) (fst p), clamp (Fin 0) (i2f (imageHeight rd)) (snd p))"

definition setCursorPosition :: "jfloat \<Rightarrow> jfloat \<Rightarrow> RenderData \<Rightarrow> bool \<times> RenderData" where
  "setCursorPosition newX newY rd =
     (let p = clamp_to_image rd (newX, newY)
      in (jne (fst p) (fst (cursorPosition rd)) \<or> jne (snd p) (snd (cursorPosition rd)),
          rd\<lparr> cursorPosition := p \<rparr>))"

text \<open>
  Modelled from the spec: the input strategies are not among the sources at hand. There are
  three variants; the trackpad strategy is the indirect input mode, the touch and the
  simulated-touch strategies are the direct mode (section 4.3 of the spec). What a strategy
  does with a call is not modelled: the call is recorded, and the answer of \<open>onTap\<close> and
  of \<open>onPressAndHold\<close> is an input.
\<close>

datatype InputStrategy = TrackpadInputStrategy | SimulatedTouchInputStrategy | TouchInputStrategy

fun isIndirectInputMode :: "InputStrategy \<Rightarrow> bool" where
  "isIndirectInputMode TrackpadInputStrategy = True"
| "isIndirectInputMode SimulatedTouchInputStrategy = False"
| "isIndirectInputMode TouchInputStrategy = False"

text \<open>
  Modelled from the spec: the button identifiers of \<open>InputStub\<close>, which is not among the
  sources at hand: 0 undefined, 1 left, 2 middle, 3 right (section 4.4 of the spec).
\<close>

definition BUTTON_UNDEFINED :: int where "BUTTON_UNDEFINED = 0"
definition BUTTON_LEFT :: int where "BUTTON_LEFT = 1"
definition BUTTON_MIDDLE :: int where "BUTTON_MIDDLE = 2"
definition BUTTON_RIGHT :: int where "BUTTON_RIGHT = 3"

text \<open>
  A handler built by the public constructor owns a second handler for touchpads, which
  shares its render data, its render stub and its injector and has no touchpad handler of
  its own.
\<close>

datatype which = Main | Touchpad

fun mTouchpadHandler :: "which \<Rightarrow> which option" where
  "mTouchpadHandler Main = Some Touchpad"
| "mTouchpadHandler Touchpad = None"

datatype Detector = Scroller | Zoomer | TapDetector | SwipePinchDetector | DexScroller

datatype FeedbackType = ShortPressFeedbackType InputStrategy | LongPressFeedbackType InputStrategy

text \<open>
  Every call the handler makes on a collaborator (the view, its input strategy, the render
  stub, the injector, a gesture detector) is recorded, in order. Logging is left out.
\<close>

datatype Effect =
    RequestFocus
  | RequestPointerCapture
  | StrategyOnMotionEvent which MotionEvent
  | InjectCursorMoveEvent which int int
  | StrategyOnScroll which jfloat jfloat
  | StrategyOnTap which int
  | StrategyOnPressAndHold which int
  | DetectorOnTouchEvent which Detector
  | RenderStubMoveCursor PointF
  | SwipeDown
  | SwipeUp
  | ShowInputFeedback FeedbackType PointF
  | SendMouseEvent PointF int bool bool
  | SendMouseDown PointF int
  | SendMouseUp PointF int
  | SendCursorMove jfloat jfloat
  | SendMouseWheelEvent jfloat jfloat

text \<open>
  What the gesture detectors call back. The detectors are Android's or not among the sources
  at hand, so which callbacks an event triggers is an input. A scroll callback carries what
  the swipe-pinch detector answers to \<open>isSwiping\<close> at that moment; a tap and a long press
  carry the answer of the strategy.
\<close>

datatype GestureCallback =
    OnDown
  | OnScale
  | OnScaleBegin
  | OnScaleEnd
  | OnScroll MotionEvent MotionEvent jfloat jfloat bool
  | OnTap int jfloat jfloat bool
  | OnLongPress int jfloat jfloat bool

datatype DexCallback = DexOnScroll jfloat jfloat | DexOnDoubleTapEvent | DexOnSingleTapConfirmed

record Detectors =
  scroller :: "GestureCallback list"
  zoomer :: "GestureCallback list"
  tapDetector :: "GestureCallback list"
  dexScroller :: "DexCallback list"

subsection \<open>The state of the handler\<close>

record Handler =
  mInputStrategy :: InputStrategy
  mTotalMotionY :: jfloat
  mSwipeThreshold :: jfloat
  mEdgeSlopInPx :: int
  mPanGestureBounds :: Rect
  mSuppressCursorMovement :: bool
  mSwipeCompleted :: bool
  mIsDragging :: bool
  hm_savedBS :: int
  hm_currentBS :: int
  dex_savedBS :: int
  dex_currentBS :: int
  dex_mIsDragging :: bool
  dex_mIsScrolling :: bool

record InputEventSender =
  preferScancodes :: bool
  pointerCapture :: bool

record World =
  mRenderData :: RenderData
  main_handler :: Handler
  touchpad_handler :: Handler
  mInjector :: InputEventSender
  effects :: "Effect list"

fun self :: "which \<Rightarrow> World \<Rightarrow> Handler" where
  "self Main s = main_handler s"
| "self Touchpad s = touchpad_handler s"

fun self_update :: "which \<Rightarrow> (Handler \<Rightarrow> Handler) \<Rightarrow> World \<Rightarrow> World" where
  "self_update Main f s = s\<lparr> main_handler := f (main_handler s) \<rparr>"
| "self_update Touchpad f s = s\<lparr> touchpad_handler := f (touchpad_handler s) \<rparr>"

definition emit :: "Effect \<Rightarrow> World \<Rightarrow> World" where
  "emit x s = s\<lparr> effects := effects s @ [x] \<rparr>"

text \<open>The constructors. The display density and the edge slop come from the context.\<close>

record Context =
  density :: jfloat
  getScaledEdgeSlop :: int

definition new_Handler :: "Context \<Rightarrow> Handler" where
  "new_Handler ctx = \<lparr> mInputStrategy = TrackpadInputStrategy, mTotalMotionY = Fin 0,
     mSwipeThreshold = jmul (Fin 40) (density ctx), mEdgeSlopInPx = getScaledEdgeSlop ctx,
     mPanGestureBounds = \<lparr> rect_left = 0, rect_top = 0, rect_right = 0, rect_bottom = 0 \<rparr>,
     mSuppressCursorMovement = False, mSwipeCompleted = False, mIsDragging = False,
     hm_savedBS = 0, hm_currentBS = 0, dex_savedBS = 0, dex_currentBS = 0,
     dex_mIsDragging = False, dex_mIsScrolling = False \<rparr>"

definition new_TouchInputHandler :: "Context \<Rightarrow> InputEventSender \<Rightarrow> World" where
  "new_TouchInputHandler ctx injector = \<lparr> mRenderData = new_RenderData,
     main_handler = new_Handler ctx, touchpad_handler = new_Handler ctx,
     mInjector = injector, effects = [] \<rparr>"

definition UNKNOWN :: int where "UNKNOWN = 0"
definition TRACKPAD :: int where "TRACKPAD = 1"
definition SIMULATED_TOUCH :: int where "SIMULATED_TOUCH = 2"
definition TOUCH :: int where "TOUCH = 3"

definition setInputMode :: "which \<Rightarrow> int \<Rightarrow> World \<Rightarrow> World" where
  "setInputMode w inputMode s =
     self_update w (\<lambda>h. h\<lparr> mInputStrategy :=
        (if inputMode = TOUCH then TouchInputStrategy
         else if inputMode = SIMULATED_TOUCH then SimulatedTouchInputStrategy
         else TrackpadInputStrategy) \<rparr>) s"

definition setPreferScancodes :: "bool \<Rightarrow> World \<Rightarrow> World" where
  "setPreferScancodes enabled s = s\<lparr> mInjector := (mInjector s)\<lparr> preferScancodes := enabled \<rparr> \<rparr>"

definition setPointerCaptureEnabled :: "bool \<Rightarrow> World \<Rightarrow> World" where
  "setPointerCaptureEnabled enabled s = s\<lparr> mInjector := (mInjector s)\<lparr> pointerCapture := enabled \<rparr> \<rparr>"

subsection \<open>Coordinate mapping and cursor moves\<close>

definition map_render_data :: "(RenderData \<Rightarrow> RenderData) \<Rightarrow> World \<Rightarrow> World" where
  "map_render_data f s = s\<lparr> mRenderData := f (mRenderData s) \<rparr>"

definition resetTransformation :: "World \<Rightarrow> World" where
  "resetTransformation s =
     (let rd = mRenderData s;
          sx = jdiv (i2f (imageWidth rd)) (i2f (screenWidth rd));
          sy = jdiv (i2f (imageHeight rd)) (i2f (screenHeight rd))
      in map_render_data (\<lambda>rd. rd\<lparr> transform := setScale sx sy (transform rd) \<rparr>) s)"

definition mapScreenPointToImagePoint :: "World \<Rightarrow> jfloat \<Rightarrow> jfloat \<Rightarrow> PointF" where
  "mapScreenPointToImagePoint s screenX screenY =
     (let screenToImage = snd (invert (transform (mRenderData s)) new_Matrix)
      in mapPoints screenToImage (screenX, screenY))"

definition moveCursor :: "which \<Rightarrow> jfloat \<Rightarrow> jfloat \<Rightarrow> World \<Rightarrow> World" where
  "moveCursor w newX newY s0 =
     (let (cursorMoved, rd) = setCursorPosition newX newY (mRenderData s0);
          s = s0\<lparr> mRenderData := rd \<rparr>;
          s = (if cursorMoved then emit (InjectCursorMoveEvent w (f2i newX) (f2i newY)) s else s)
      in emit (RenderStubMoveCursor (getCursorPosition (mRenderData s))) s)"

definition moveCursorToScreenPoint :: "which \<Rightarrow> jfloat \<Rightarrow> jfloat \<Rightarrow> World \<Rightarrow> World" where
  "moveCursorToScreenPoint w screenX screenY s =
     (let imagePoint = mapScreenPointToImagePoint s screenX screenY
      in moveCursor w (fst imagePoint) (snd imagePoint) s)"

definition moveCursorByOffset :: "which \<Rightarrow> jfloat \<Rightarrow> jfloat \<Rightarrow> World \<Rightarrow> World" where
  "moveCursorByOffset w deltaX deltaY s =
     (let cursorPos = getCursorPosition (mRenderData s);
          x = jadd (fst cursorPos) (jneg deltaX);
          y = jadd (snd cursorPos) (jneg deltaY);
          x = (if jlt x (Fin 0) then Fin 0 else x);
          y = (if jlt y (Fin 0) then Fin 0 else y);
          x = (if jgt x (i2f (screenWidth (mRenderData s))) then i2f (screenWidth (mRenderData s))
               else x);
          y = (if jgt y (i2f (screenHeight (mRenderData s))) then i2f (screenHeight (mRenderData s))
               else y)
      in moveCursor w x y s)"

subsection \<open>Size changes\<close>

definition which_depth :: "which \<Rightarrow> nat" where
  "which_depth w = (case mTouchpadHandler w of None \<Rightarrow> 0 | Some _ \<Rightarrow> 1)"

function handleClientSizeChanged :: "which \<Rightarrow> int \<Rightarrow> int \<Rightarrow> World \<Rightarrow> World" where
  "handleClientSizeChanged w width height s0 =
     (let s = map_render_data (\<lambda>rd. rd\<lparr> screenWidth := width, screenHeight := height \<rparr>) s0;
          s = resetTransformation s
      in case mTouchpadHandler w of
           Some t \<Rightarrow> handleClientSizeChanged t width height s
         | None \<Rightarrow> s)"
  by pat_completeness auto
termination
  by (relation "measure (\<lambda>(w, _). which_depth w)")
     (auto simp: which_depth_def elim!: mTouchpadHandler.elims)

function handleHostSizeChanged :: "which \<Rightarrow> int \<Rightarrow> int \<Rightarrow> World \<Rightarrow> World" where
  "handleHostSizeChanged w width height s0 =
     (let s = map_render_data (\<lambda>rd. rd\<lparr> imageWidth := width, imageHeight := height \<rparr>) s0;
          slop = mEdgeSlopInPx (self w s);
          s = self_update w (\<lambda>h. h\<lparr> mPanGestureBounds :=
                \<lparr> rect_left = slop, rect_top = slop,
                  rect_right = jint (width - slop), rect_bottom = jint (height - slop) \<rparr> \<rparr>) s;
          s = moveCursorToScreenPoint w (jdiv (i2f width) (Fin 2)) (jdiv (i2f height) (Fin 2)) s;
          s = resetTransformation s
      in case mTouchpadHandler w of
           Some t \<Rightarrow> handleHostSizeChanged t width height s
         | None \<Rightarrow> s)"
  by pat_completeness auto
termination
  by (relation "measure (\<lambda>(w, _). which_depth w)")
     (auto simp: which_depth_def elim!: mTouchpadHandler.elims)

subsection \<open>The gesture listener\<close>

definition onSwipe :: "which \<Rightarrow> World \<Rightarrow> bool \<times> World" where
  "onSwipe w s =
     (let h = self w s
      in if jgt (mTotalMotionY h) (mSwipeThreshold h) then
           (True, self_update w (\<lambda>h. h\<lparr> mSuppressCursorMovement := True, mSwipeCompleted := True \<rparr>)
                    (emit SwipeDown s))
         else if jlt (mTotalMotionY h) (jneg (mSwipeThreshold h)) then
           (True, self_update w (\<lambda>h. h\<lparr> mSuppressCursorMovement := True, mSwipeCompleted := True \<rparr>)
                    (emit SwipeUp s))
         else (False, s))"

definition onScroll ::
  "which \<Rightarrow> MotionEvent \<Rightarrow> MotionEvent \<Rightarrow> jfloat \<Rightarrow> jfloat \<Rightarrow> bool \<Rightarrow> World \<Rightarrow> bool \<times> World" where
  "onScroll w e1 e2 distanceX distanceY isSwiping s =
     (let pointerCount = getPointerCount e2
      in if \<not> Rect_contains (mPanGestureBounds (self w s)) (f2i (getX e1)) (f2i (getY e1)) \<and>
            mTouchpadHandler w \<noteq> None then
           (False, self_update w (\<lambda>h. h\<lparr> mSuppressCursorMovement := True \<rparr>) s)
         else if 3 \<le> pointerCount \<and> \<not> mSwipeCompleted (self w s) then
           onSwipe w
             (self_update w (\<lambda>h. h\<lparr> mTotalMotionY := jsub (mTotalMotionY h) distanceY \<rparr>) s)
         else if pointerCount = 2 \<and> isSwiping then
           (let s = (if \<not> isIndirectInputMode (mInputStrategy (self w s))
                     then moveCursorToScreenPoint w (getX e1) (getY e1) s else s);
                s = emit (StrategyOnScroll w distanceX distanceY) s
            in (True, self_update w (\<lambda>h. h\<lparr> mSuppressCursorMovement := True \<rparr>) s))
         else if pointerCount \<noteq> 1 \<or> mSuppressCursorMovement (self w s) then (False, s)
         else
           (let canvasToImage = snd (invert (transform (mRenderData s)) new_Matrix);
                delta = mapVectors canvasToImage (distanceX, distanceY);
                s = (if isIndirectInputMode (mInputStrategy (self w s))
                     then moveCursorByOffset w (fst delta) (snd delta) s else s);
                s = (if \<not> isIndirectInputMode (mInputStrategy (self w s)) \<and> mIsDragging (self w s)
                     then moveCursorToScreenPoint w (getX e2) (getY e2) s else s)
            in (True, s)))"

definition mouseButtonFromPointerCount :: "int \<Rightarrow> int" where
  "mouseButtonFromPointerCount pointerCount =
     (if pointerCount = 1 then BUTTON_LEFT
      else if pointerCount = 2 then BUTTON_RIGHT
      else if pointerCount = 3 then BUTTON_MIDDLE
      else BUTTON_UNDEFINED)"

text \<open>The constant \<open>0.001f\<close>: the float nearest to one thousandth.\<close>

definition EPSILON :: jfloat where
  "EPSILON = fround (1 / 1000)"

definition screenPointLiesOutsideImageBoundary :: "World \<Rightarrow> jfloat \<Rightarrow> jfloat \<Rightarrow> bool" where
  "screenPointLiesOutsideImageBoundary s screenX screenY =
     (let mappedPoints = mapScreenPointToImagePoint s screenX screenY;
          imageWidth' = jadd (i2f (imageWidth (mRenderData s))) EPSILON;
          imageHeight' = jadd (i2f (imageHeight (mRenderData s))) EPSILON
      in jlt (fst mappedPoints) (jneg EPSILON) \<or> jgt (fst mappedPoints) imageWidth' \<or>
         jlt (snd mappedPoints) (jneg EPSILON) \<or> jgt (snd mappedPoints) imageHeight')"

text \<open>
  \<open>onTap\<close> and \<open>onLongPress\<close>; \<open>consumed\<close> is what the strategy answers to \<open>onTap\<close>
  and to \<open>onPressAndHold\<close>.
\<close>

definition onTap :: "which \<Rightarrow> int \<Rightarrow> jfloat \<Rightarrow> jfloat \<Rightarrow> bool \<Rightarrow> World \<Rightarrow> bool \<times> World" where
  "onTap w pointerCount x y consumed s0 =
     (let button = mouseButtonFromPointerCount pointerCount;
          strategy = mInputStrategy (self w s0)
      in if button = BUTTON_UNDEFINED then (False, s0)
         else if \<not> isIndirectInputMode strategy \<and> screenPointLiesOutsideImageBoundary s0 x y
         then (False, s0)
         else
           (let s = (if \<not> isIndirectInputMode strategy then moveCursorToScreenPoint w x y s0
                     else s0);
                s = emit (StrategyOnTap w button) s;
                s = (if consumed
                     then emit (ShowInputFeedback (ShortPressFeedbackType strategy)
                                  (getCursorPosition (mRenderData s))) s
                     else s)
            in (True, s)))"

definition onLongPress :: "which \<Rightarrow> int \<Rightarrow> jfloat \<Rightarrow> jfloat \<Rightarrow> bool \<Rightarrow> World \<Rightarrow> World" where
  "onLongPress w pointerCount x y consumed s0 =
     (let button = mouseButtonFromPointerCount pointerCount;
          strategy = mInputStrategy (self w s0)
      in if button = BUTTON_UNDEFINED then s0
         else if \<not> isIndirectInputMode strategy \<and> screenPointLiesOutsideImageBoundary s0 x y
         then s0
         else
           (let s = (if \<not> isIndirectInputMode strategy then moveCursorToScreenPoint w x y s0
                     else s0);
                s = emit (StrategyOnPressAndHold w button) s
            in if consumed
               then self_update w (\<lambda>h. h\<lparr> mIsDragging := True \<rparr>)
                      (emit (ShowInputFeedback (LongPressFeedbackType strategy)
                               (getCursorPosition (mRenderData s))) s)
               else s))"

fun callback :: "which \<Rightarrow> GestureCallback \<Rightarrow> World \<Rightarrow> World" where
  "callback w OnDown s = s"
| "callback w OnScale s = s"
| "callback w OnScaleBegin s = s"
| "callback w OnScaleEnd s = s"
| "callback w (OnScroll e1 e2 distanceX distanceY isSwiping) s =
     snd (onScroll w e1 e2 distanceX distanceY isSwiping s)"
| "callback w (OnTap pointerCount x y consumed) s = snd (onTap w pointerCount x y consumed s)"
| "callback w (OnLongPress pointerCount x y consumed) s = onLongPress w pointerCount x y consumed s"

fun callbacks :: "which \<Rightarrow> GestureCallback list \<Rightarrow> World \<Rightarrow> World" where
  "callbacks w [] s = s"
| "callbacks w (c # cs) s = callbacks w cs (callback w c s)"

subsection \<open>The listeners for touchpads, mice and docked touchpads\<close>

definition TouchpadListener_onTouch :: "which \<Rightarrow> View \<Rightarrow> MotionEvent \<Rightarrow> World \<Rightarrow> World" where
  "TouchpadListener_onTouch w v e s0 =
     (let s = (if pointerCapture (mInjector s0) \<and> \<not> hasPointerCapture v \<and> getAction e = ACTION_UP
               then emit RequestPointerCapture s0 else s0)
      in if getActionMasked e = ACTION_MOVE \<and> getPointerCount e = 1 \<and>
            (getSource e AND SOURCE_TOUCHPAD) = SOURCE_TOUCHPAD
         then moveCursorByOffset w (jmul (Fin (- 2)) (AXIS_RELATIVE_X e))
                (jmul (Fin (- 2)) (AXIS_RELATIVE_Y e)) s
         else s)"

definition isMouseButtonChanged :: "int \<Rightarrow> int \<Rightarrow> int \<Rightarrow> bool" where
  "isMouseButtonChanged savedBS currentBS button = ((savedBS AND button) \<noteq> (currentBS AND button))"

definition mouseButtonDown :: "int \<Rightarrow> int \<Rightarrow> bool" where
  "mouseButtonDown currentBS button = ((currentBS AND button) \<noteq> 0)"

text \<open>The three button reports that both the mouse and the dock listener make.\<close>

definition sendButtonChanges :: "int \<Rightarrow> int \<Rightarrow> World \<Rightarrow> World" where
  "sendButtonChanges savedBS currentBS s0 =
     (let s = (if isMouseButtonChanged savedBS currentBS BUTTON_PRIMARY
               then emit (SendMouseEvent (getCursorPosition (mRenderData s0)) 1
                            (mouseButtonDown currentBS BUTTON_PRIMARY) False) s0
               else s0);
          s = (if isMouseButtonChanged savedBS currentBS BUTTON_TERTIARY
               then emit (SendMouseEvent (getCursorPosition (mRenderData s)) 2
                            (mouseButtonDown currentBS BUTTON_TERTIARY) False) s
               else s)
      in if isMouseButtonChanged savedBS currentBS BUTTON_SECONDARY
         then emit (SendMouseEvent (getCursorPosition (mRenderData s)) 3
                      (mouseButtonDown currentBS BUTTON_SECONDARY) False) s
         else s)"

text \<open>The absolute cursor placement of the mouse and the dock listener.\<close>

definition placeCursor :: "MotionEvent \<Rightarrow> World \<Rightarrow> World" where
  "placeCursor e s =
     (let imagePoint = mapScreenPointToImagePoint s (i2f (f2i (getX e))) (i2f (f2i (getY e)));
          (moved, rd) = setCursorPosition (fst imagePoint) (snd imagePoint) (mRenderData s);
          s = s\<lparr> mRenderData := rd \<rparr>
      in if moved then emit (SendCursorMove (fst imagePoint) (snd imagePoint)) s else s)"

definition HardwareMouseListener_onTouch ::
  "which \<Rightarrow> View \<Rightarrow> MotionEvent \<Rightarrow> World \<Rightarrow> bool \<times> World" where
  "HardwareMouseListener_onTouch w v e s0 =
     (let s = (if pointerCapture (mInjector s0) \<and> \<not> hasPointerCapture v \<and> getAction e = ACTION_UP
               then emit RequestPointerCapture s0 else s0)
      in if getAction e = ACTION_SCROLL then
           (let scrollY = jmul (Fin (- 100)) (AXIS_VSCROLL e);
                scrollX = jmul (Fin (- 100)) (AXIS_HSCROLL e)
            in (True, emit (SendMouseWheelEvent scrollX scrollY) s))
         else
           (let s = placeCursor e s;
                s = self_update w (\<lambda>h. h\<lparr> hm_currentBS := getButtonState e \<rparr>) s;
                s = sendButtonChanges (hm_savedBS (self w s)) (hm_currentBS (self w s)) s;
                s = self_update w (\<lambda>h. h\<lparr> hm_savedBS := hm_currentBS h \<rparr>) s
            in (True, s)))"

definition onSingleTapConfirmed :: "World \<Rightarrow> World" where
  "onSingleTapConfirmed s =
     emit (SendMouseEvent (getCursorPosition (mRenderData s)) 1 False False)
       (emit (SendMouseEvent (getCursorPosition (mRenderData s)) 1 True False) s)"

fun dex_callback :: "DexCallback \<Rightarrow> World \<Rightarrow> World" where
  "dex_callback (DexOnScroll distanceX distanceY) s = emit (SendMouseWheelEvent distanceX distanceY) s"
| "dex_callback DexOnDoubleTapEvent s = onSingleTapConfirmed (onSingleTapConfirmed s)"
| "dex_callback DexOnSingleTapConfirmed s = onSingleTapConfirmed s"

fun dex_callbacks :: "DexCallback list \<Rightarrow> World \<Rightarrow> World" where
  "dex_callbacks [] s = s"
| "dex_callbacks (c # cs) s = dex_callbacks cs (dex_callback c s)"

text \<open>The dock listener hands an event to its own scroll detector, which may call back.\<close>

definition dex_mScroller :: "which \<Rightarrow> Detectors \<Rightarrow> World \<Rightarrow> World" where
  "dex_mScroller w d s = dex_callbacks (dexScroller d) (emit (DetectorOnTouchEvent w DexScroller) s)"

definition DexListener_onTouch ::
  "which \<Rightarrow> View \<Rightarrow> Detectors \<Rightarrow> MotionEvent \<Rightarrow> World \<Rightarrow> bool \<times> World" where
  "DexListener_onTouch w v d e s0 =
     (let a = getActionMasked e;
          scrollFlags = ((getFlags e AND 335544320) = 335544320);
          dragFlags = ((getFlags e AND 67108864) = 67108864)
      in (True,
          if a = ACTION_BUTTON_PRESS \<or> a = ACTION_BUTTON_RELEASE then
            (let s = dex_mScroller w d s0;
                 s = self_update w (\<lambda>h. h\<lparr> dex_currentBS := getButtonState e \<rparr>) s;
                 s = sendButtonChanges (dex_savedBS (self w s)) (dex_currentBS (self w s)) s
             in self_update w (\<lambda>h. h\<lparr> dex_savedBS := dex_currentBS h \<rparr>) s)
          else if a = ACTION_HOVER_MOVE then placeCursor e s0
          else if a = ACTION_DOWN then
            (if scrollFlags then
               dex_mScroller w d (self_update w (\<lambda>h. h\<lparr> dex_mIsScrolling := True \<rparr>) s0)
             else if dragFlags then
               emit (SendMouseEvent (getCursorPosition (mRenderData s0)) 1 True False)
                 (self_update w (\<lambda>h. h\<lparr> dex_mIsDragging := True \<rparr>) s0)
             else s0)
          else if a = ACTION_UP then
            (let s = (if scrollFlags then
                        self_update w (\<lambda>h. h\<lparr> dex_mIsScrolling := False \<rparr>) (dex_mScroller w d s0)
                      else if dragFlags then
                        self_update w (\<lambda>h. h\<lparr> dex_mIsDragging := False \<rparr>)
                          (emit (SendMouseEvent (getCursorPosition (mRenderData s0)) 1 False False) s0)
                      else s0)
             in if pointerCapture (mInjector s) \<and> \<not> hasPointerCapture v
                then emit RequestPointerCapture s else s)
          else if a = ACTION_MOVE then
            (if dex_mIsScrolling (self w s0) \<and> scrollFlags then dex_mScroller w d s0
             else if dex_mIsDragging (self w s0) \<and> dragFlags then placeCursor e s0
             else s0)
          else s0))"

subsection \<open>The entry points\<close>

definition isDexEvent :: "MotionEvent \<Rightarrow> bool" where
  "isDexEvent e =
     (let SOURCE_DEX = (SOURCE_MOUSE OR SOURCE_TOUCHSCREEN)
      in (getSource e AND SOURCE_DEX) = SOURCE_DEX \<and>
         (getSource e AND SOURCE_TOUCHPAD) \<noteq> SOURCE_TOUCHPAD)"

text \<open>
  The steps of the gesture pipeline: the strategy observes the event, the four detectors see
  it one after the other and call back, and the touchpad listener and the \<open>switch\<close> on the
  masked action finish the event.
\<close>

definition observe :: "which \<Rightarrow> MotionEvent \<Rightarrow> World \<Rightarrow> World" where
  "observe w e s = emit (StrategyOnMotionEvent w e) s"

definition detector :: "which \<Rightarrow> Detector \<Rightarrow> GestureCallback list \<Rightarrow> World \<Rightarrow> World" where
  "detector w det cbs s = callbacks w cbs (emit (DetectorOnTouchEvent w det) s)"

definition finish :: "which \<Rightarrow> View \<Rightarrow> MotionEvent \<Rightarrow> World \<Rightarrow> World" where
  "finish w v e s0 =
     (let s = TouchpadListener_onTouch w v e s0
      in if getActionMasked e = ACTION_DOWN then
           self_update w (\<lambda>h. h\<lparr> mSuppressCursorMovement := False, mSwipeCompleted := False,
                                 mIsDragging := False \<rparr>) s
         else if getActionMasked e = ACTION_POINTER_DOWN then
           self_update w (\<lambda>h. h\<lparr> mTotalMotionY := Fin 0 \<rparr>) s
         else s)"

definition gesturePipeline :: "which \<Rightarrow> View \<Rightarrow> Detectors \<Rightarrow> MotionEvent \<Rightarrow> World \<Rightarrow> World" where
  "gesturePipeline w v d e s0 =
     (let s = observe w e s0;
          s = detector w Scroller (scroller d) s;
          s = detector w Zoomer (zoomer d) s;
          s = detector w TapDetector (tapDetector d) s;
          s = detector w SwipePinchDetector [] s
      in finish w v e s)"

function handleTouchEvent ::
  "which \<Rightarrow> View \<Rightarrow> Detectors \<Rightarrow> MotionEvent \<Rightarrow> World \<Rightarrow> input_error + (bool \<times> World)" where
  "handleTouchEvent w v d e s0 =
     (let s = (if \<not> isFocused v \<and> getAction e = ACTION_DOWN then emit RequestFocus s0 else s0)
      in case getToolType e (getActionIndex e) of
           None \<Rightarrow> Inl IllegalArgumentException
         | Some toolType \<Rightarrow>
             if toolType = TOOL_TYPE_MOUSE then Inr (HardwareMouseListener_onTouch w v e s)
             else if toolType = TOOL_TYPE_FINGER then
               (if isDexEvent e then Inr (DexListener_onTouch w v d e s)
                else case mTouchpadHandler w of
                       Some t \<Rightarrow>
                         if (getSource e AND SOURCE_TOUCHPAD) = SOURCE_TOUCHPAD
                         then handleTouchEvent t v d e s
                         else Inr (True, gesturePipeline w v d e s)
                     | None \<Rightarrow> Inr (True, gesturePipeline w v d e s))
             else Inr (False, s))"
  by pat_completeness auto
termination
  by (relation "measure (\<lambda>(w, _). which_depth w)")
     (auto simp: which_depth_def elim!: mTouchpadHandler.elims)

definition mouseButtonFromMotionEvent :: "MotionEvent \<Rightarrow> int" where
  "mouseButtonFromMotionEvent e =
     (if getActionButton e = BUTTON_PRIMARY then BUTTON_LEFT
      else if getActionButton e = BUTTON_SECONDARY then BUTTON_RIGHT
      else if getActionButton e = BUTTON_TERTIARY then BUTTON_MIDDLE
      else BUTTON_UNDEFINED)"

definition handleCapturedEvent ::
  "which \<Rightarrow> View \<Rightarrow> Detectors \<Rightarrow> MotionEvent \<Rightarrow> World \<Rightarrow> input_error + (bool \<times> World)" where
  "handleCapturedEvent w v d e s =
     (if (getSource e AND SOURCE_TOUCHPAD) = SOURCE_TOUCHPAD then
        (case mTouchpadHandler w of
           Some t \<Rightarrow>
             (case handleTouchEvent t v d e s of
                Inl err \<Rightarrow> Inl err
              | Inr (_, s') \<Rightarrow> Inr (True, s'))
         | None \<Rightarrow> Inr (True, s))
      else
        (let button = mouseButtonFromMotionEvent e
         in if getAction e = ACTION_MOVE then
              (if jeq (getX e) (Fin 0) \<and> jeq (getY e) (Fin 0) then Inr (True, s)
               else Inr (True, moveCursorByOffset w (jmul (jneg (getX e)) (Fin 2))
                                 (jmul (jneg (getY e)) (Fin 2)) s))
            else if getAction e = ACTION_BUTTON_PRESS then
              Inr (True, emit (SendMouseDown (getCursorPosition (mRenderData s)) button) s)
            else if getAction e = ACTION_BUTTON_RELEASE then
              Inr (True, emit (SendMouseUp (getCursorPosition (mRenderData s)) button) s)
            else if getAction e = ACTION_SCROLL then
              (let scrollY = jmul (Fin (- 100)) (AXIS_VSCROLL e);
                   scrollX = jmul (Fin (- 100)) (AXIS_HSCROLL e)
               in Inr (True, emit (SendMouseWheelEvent scrollX scrollY) s))
            else Inr (True, s)))"

subsection \<open>Observations and concrete inputs for the handler\<close>

fun is_swipe :: "Effect \<Rightarrow> bool" where
  "is_swipe SwipeDown = True"
| "is_swipe SwipeUp = True"
| "is_swipe _ = False"

definition swipes :: "World \<Rightarrow> Effect list" where
  "swipes s = filter is_swipe (effects s)"

text \<open>
  A gesture session of a handler is the sequence of steps its gesture pipeline takes: the
  strategy observes an event, a detector sees it, a detector calls back (during an event, or
  between two events when a long press times out), the event is finished.
\<close>

datatype GestureOp =
    Observe MotionEvent
  | See Detector
  | Callback GestureCallback
  | Finish View MotionEvent

fun gestureOp :: "which \<Rightarrow> GestureOp \<Rightarrow> World \<Rightarrow> World" where
  "gestureOp w (Observe e) s = observe w e s"
| "gestureOp w (See det) s = detector w det [] s"
| "gestureOp w (Callback c) s = callback w c s"
| "gestureOp w (Finish v e) s = finish w v e s"

fun run :: "which \<Rightarrow> GestureOp list \<Rightarrow> World \<Rightarrow> World" where
  "run w [] s = s"
| "run w (x # xs) s = run w xs (gestureOp w x s)"

definition pipeline_ops :: "View \<Rightarrow> Detectors \<Rightarrow> MotionEvent \<Rightarrow> GestureOp list" where
  "pipeline_ops v d e =
     [Observe e, See Scroller] @ map Callback (scroller d) @
     [See Zoomer] @ map Callback (zoomer d) @
     [See TapDetector] @ map Callback (tapDetector d) @
     [See SwipePinchDetector, Finish v e]"


text \<open>
  A device with density 2 and an edge slop of 24 pixels; the view is 1080 by 2400 pixels and
  the remote image 1920 by 1080.
\<close>

definition demo_context :: Context where
  "demo_context = \<lparr> density = Fin 2, getScaledEdgeSlop = 24 \<rparr>"

definition demo_injector :: InputEventSender where
  "demo_injector = \<lparr> preferScancodes = False, pointerCapture = False \<rparr>"

definition fresh_world :: World where
  "fresh_world = new_TouchInputHandler demo_context demo_injector"

definition sized_world :: World where
  "sized_world =
     handleHostSizeChanged Main 1920 1080 (handleClientSizeChanged Main 1080 2400 fresh_world)"

text \<open>The invariant of the render data: the cursor lies in the image.\<close>

definition cursor_in_image :: "RenderData \<Rightarrow> bool" where
  "cursor_in_image rd =
     (jle (Fin 0) (fst (cursorPosition rd)) \<and> jle (fst (cursorPosition rd)) (i2f (imageWidth rd)) \<and>
      jle (Fin 0) (snd (cursorPosition rd)) \<and> jle (snd (cursorPosition rd)) (i2f (imageHeight rd)))"

definition cursor_at :: "real \<Rightarrow> real \<Rightarrow> World \<Rightarrow> World" where
  "cursor_at x y s = map_render_data (\<lambda>rd. rd\<lparr> cursorPosition := (Fin x, Fin y) \<rparr>) s"

text \<open>The same device when the view and the remote image are both 1920 by 1080.\<close>

definition same_size_world :: World where
  "same_size_world =
     handleHostSizeChanged Main 1920 1080 (handleClientSizeChanged Main 1920 1080 fresh_world)"

definition finger :: "int \<Rightarrow> nat \<Rightarrow> real \<Rightarrow> real \<Rightarrow> MotionEvent" where
  "finger a n x y = \<lparr> getAction = a, toolTypes = replicate n TOOL_TYPE_FINGER,
     getSource = SOURCE_TOUCHSCREEN, getX = Fin x, getY = Fin y, getButtonState = 0,
     getActionButton = 0, getFlags = 0, AXIS_VSCROLL = Fin 0, AXIS_HSCROLL = Fin 0,
     AXIS_RELATIVE_X = Fin 0, AXIS_RELATIVE_Y = Fin 0 \<rparr>"

definition stylus :: "int \<Rightarrow> real \<Rightarrow> real \<Rightarrow> MotionEvent" where
  "stylus a x y = (finger a 1 x y)\<lparr> toolTypes := [TOOL_TYPE_STYLUS] \<rparr>"

definition no_callbacks :: Detectors where
  "no_callbacks = \<lparr> scroller = [], zoomer = [], tapDetector = [], dexScroller = [] \<rparr>"

definition unfocused_view :: View where
  "unfocused_view = \<lparr> isFocused = False, hasPointerCapture = False \<rparr>"

text \<open>
  Between two states of a session no swipe was reported unless the session's swipe is
  completed afterwards, and none at all if it was completed before.
\<close>

definition swipe_guarded :: "which \<Rightarrow> World \<Rightarrow> World \<Rightarrow> bool" where
  "swipe_guarded w s s' =
     ((mSwipeCompleted (self w s) \<longrightarrow> mSwipeCompleted (self w s') \<and> swipes s' = swipes s) \<and>
      (\<not> mSwipeCompleted (self w s') \<longrightarrow> swipes s' = swipes s))"

text \<open>The handler in the touch input mode, and a scroll callback of three fingers.\<close>

definition touch_world :: World where
  "touch_world = setInputMode Main TOUCH same_size_world"



text \<open>The handler in the trackpad input mode, which is the mode a new handler is in.\<close>

definition trackpad_world :: World where
  "trackpad_world = setInputMode Main TRACKPAD same_size_world"

section \<open>Properties of the float arithmetic\<close>

subsection \<open>Rounding\<close>

lemma pow2_pos [simp]: "0 < pow2 e"
  by (simp add: pow2_def)

lemma pow2_Suc: "pow2 (e + 1) = 2 * pow2 e"
proof (cases "0 \<le> e")
  case True
  then show ?thesis by (simp add: pow2_def nat_add_distrib)
next
  case False
  then have "nat (- e) = Suc (nat (- (e + 1)))" by simp
  then show ?thesis using False by (simp add: pow2_def)
qed

lemma pow2_nonpos: "e \<le> 0 \<Longrightarrow> pow2 e = 1 / 2 ^ nat (- e)"
  by (simp add: pow2_def)

lemma exponent_down_le: "exponent_down a e \<le> e"
proof (induction a e rule: exponent_down.induct)
  case (1 a e)
  show ?case
  proof (cases "8388608 * pow2 e \<le> a \<or> e \<le> - 149")
    case True
    then show ?thesis by (subst exponent_down.simps) simp
  next
    case False
    then have "exponent_down a (e - 1) \<le> e - 1" by (rule "1.IH")
    then show ?thesis using False by (subst exponent_down.simps) simp
  qed
qed

lemma exponent_up_lower:
  "8388608 * pow2 e \<le> a \<Longrightarrow> 8388608 * pow2 (exponent_up a e) \<le> a"
proof (induction a e rule: exponent_up.induct)
  case (1 a e)
  show ?case
  proof (cases "a < 16777216 * pow2 e \<or> 104 \<le> e")
    case True
    then show ?thesis using "1.prems" by (subst exponent_up.simps) simp
  next
    case False
    then have "8388608 * pow2 (e + 1) \<le> a" by (simp add: pow2_Suc)
    then have "8388608 * pow2 (exponent_up a (e + 1)) \<le> a" using False by (intro "1.IH") simp_all
    then show ?thesis using False by (subst exponent_up.simps) simp
  qed
qed

lemma round_half_even_int [simp]: "round_half_even (of_int j) = j"
  by (simp add: round_half_even_def)

lemma round_half_even_ge_floor: "\<lfloor>q\<rfloor> \<le> round_half_even q"
  by (simp add: round_half_even_def Let_def)

lemma round_half_even_nonneg: "0 \<le> q \<Longrightarrow> 0 \<le> round_half_even q"
  using round_half_even_ge_floor [of q] by (simp add: order_trans [of 0 "\<lfloor>q\<rfloor>"])

lemma fround_not_NaN [simp]: "fround x \<noteq> NaN"
  by (simp add: fround_def Let_def signed_inf_def)

lemma fround_neg: "fround (- x) = (case fround x of Fin r \<Rightarrow> Fin (- r) | PInf \<Rightarrow> NInf | NInf \<Rightarrow> PInf | NaN \<Rightarrow> NaN)"
  by (simp add: fround_def Let_def signed_inf_def)

lemma fround_nonneg:
  assumes "0 \<le> x"
  shows "fround x = PInf \<or> (\<exists>r\<ge>0. fround x = Fin r)"
proof (cases "x = 0")
  case True
  then show ?thesis by (simp add: fround_def)
next
  case False
  then have pos: "0 < x" using assms by simp
  have "0 \<le> round_half_even (\<bar>x\<bar> / pow2 (float_exponent \<bar>x\<bar>))"
    by (intro round_half_even_nonneg divide_nonneg_pos) simp_all
  then have "0 \<le> real_of_int (round_half_even (\<bar>x\<bar> / pow2 (float_exponent \<bar>x\<bar>))) * pow2 (float_exponent \<bar>x\<bar>)"
    by (intro mult_nonneg_nonneg) (simp_all add: less_imp_le)
  then show ?thesis
    using pos by (auto simp add: fround_def Let_def signed_inf_def)
qed

lemma fround_int:
  assumes "\<bar>n\<bar> < 16777216"
  shows "fround (real_of_int n) = Fin (real_of_int n)"
proof (cases "n = 0")
  case True
  then show ?thesis by (simp add: fround_def)
next
  case False
  let ?a = "\<bar>real_of_int n\<bar>"
  let ?e = "float_exponent ?a"
  have small: "?a < 16777216" using assms by linarith
  then have e: "?e = exponent_down ?a 0" by (simp add: float_exponent_def)
  then have "?e \<le> 0" by (simp add: exponent_down_le)
  then have p: "pow2 ?e = 1 / 2 ^ nat (- ?e)" by (rule pow2_nonpos)
  have q: "?a / pow2 ?e = real_of_int (\<bar>n\<bar> * 2 ^ nat (- ?e))"
    by (simp add: p)
  have m: "round_half_even (?a / pow2 ?e) = \<bar>n\<bar> * 2 ^ nat (- ?e)"
    by (simp only: q round_half_even_int)
  have r: "real_of_int (round_half_even (?a / pow2 ?e)) * pow2 ?e = ?a"
    by (simp add: m) (simp add: p)
  have big: "\<not> (2 :: real) ^ 128 \<le> ?a" using small by simp
  show ?thesis
    using False big unfolding fround_def Let_def r
    by (cases "0 < n") (simp_all add: signed_inf_def)
qed

lemma fround_numeral [simp]:
  "(numeral k :: int) < 16777216 \<Longrightarrow> fround (numeral k) = Fin (numeral k)"
  "(numeral k :: int) < 16777216 \<Longrightarrow> fround (- numeral k) = Fin (- numeral k)"
  "fround 0 = Fin 0" "fround 1 = Fin 1"
  using fround_int [of "numeral k"] fround_int [of "- numeral k"] fround_int [of 1]
  by (simp_all add: fround_def)


lemma fround_large:
  assumes "16777216 \<le> x"
  shows "fround x = PInf \<or> (\<exists>r>0. fround x = Fin r)"
proof -
  let ?e = "exponent_up x 1"
  have x: "0 < x" "\<bar>x\<bar> = x" "x \<noteq> 0" using assms by simp_all
  have e: "float_exponent x = ?e" using assms by (simp add: float_exponent_def)
  have "8388608 * pow2 1 \<le> x" using assms by (simp add: pow2_def)
  then have "8388608 * pow2 ?e \<le> x" by (rule exponent_up_lower)
  then have "8388608 \<le> x / pow2 ?e" by (simp add: pos_le_divide_eq)
  then have "8388608 \<le> \<lfloor>x / pow2 ?e\<rfloor>" by linarith
  then have "0 < round_half_even (x / pow2 ?e)"
    using round_half_even_ge_floor [of "x / pow2 ?e"] by linarith
  then have "0 < real_of_int (round_half_even (x / pow2 ?e)) * pow2 ?e"
    by (intro mult_pos_pos) simp_all
  then show ?thesis
    using x by (auto simp add: fround_def Let_def e signed_inf_def)
qed

lemma i2f_0 [simp]: "i2f 0 = Fin 0"
  by (simp add: i2f_def)

lemma i2f_small: "\<bar>n\<bar> < 16777216 \<Longrightarrow> i2f n = Fin (real_of_int n)"
  by (simp add: i2f_def fround_int)

lemma i2f_numeral [simp]:
  "(numeral k :: int) < 16777216 \<Longrightarrow> i2f (numeral k) = Fin (numeral k)"
  using i2f_small [of "numeral k"] by simp

lemma i2f_pos:
  assumes "0 < n"
  shows "i2f n = PInf \<or> (\<exists>r>0. i2f n = Fin r)"
proof (cases "n < 16777216")
  case True
  then have "i2f n = Fin (real_of_int n)" using assms by (intro i2f_small) simp
  then show ?thesis using assms by simp
next
  case False
  then have "16777216 \<le> real_of_int n" by simp
  then show ?thesis unfolding i2f_def by (rule fround_large)
qed

lemma i2f_neg:
  assumes "n < 0"
  shows "i2f n = NInf \<or> (\<exists>r<0. i2f n = Fin r)"
proof -
  have "i2f n = (case i2f (- n) of Fin r \<Rightarrow> Fin (- r) | PInf \<Rightarrow> NInf | NInf \<Rightarrow> PInf | NaN \<Rightarrow> NaN)"
    using fround_neg [of "real_of_int (- n)"] by (simp add: i2f_def)
  moreover have "i2f (- n) = PInf \<or> (\<exists>r>0. i2f (- n) = Fin r)"
    using assms by (intro i2f_pos) simp
  ultimately show ?thesis by auto
qed

lemma i2f_nonneg: "0 \<le> n \<Longrightarrow> jle (Fin 0) (i2f n)"
  using fround_nonneg [of "real_of_int n"] by (auto simp add: i2f_def jle_def)

lemma jdiv_by_zero:
  "jdiv (i2f n) (i2f 0) = (if n = 0 then NaN else if 0 < n then PInf else NInf)"
proof -
  consider "n = 0" | "0 < n" | "n < 0" by linarith
  then show ?thesis
  proof cases
    case 1
    then show ?thesis by simp
  next
    case 2
    then show ?thesis using i2f_pos [OF 2] by (auto simp add: signed_inf_def)
  next
    case 3
    then show ?thesis using i2f_neg [OF 3] by (auto simp add: signed_inf_def)
  qed
qed

lemma jdiv_of_zero: "jdiv (i2f 0) (i2f n) = (if n = 0 then NaN else Fin 0)"
proof -
  consider "n = 0" | "0 < n" | "n < 0" by linarith
  then show ?thesis
  proof cases
    case 1
    then show ?thesis by simp
  next
    case 2
    then show ?thesis using i2f_pos [OF 2] by auto
  next
    case 3
    then show ?thesis using i2f_neg [OF 3] by auto
  qed
qed

lemma jdiv_i2f:
  assumes "\<bar>a\<bar> < 16777216" "\<bar>b\<bar> < 16777216" "b \<noteq> 0"
  shows "jdiv (i2f a) (i2f b) = fround (real_of_int a / real_of_int b)"
  using assms by (simp add: i2f_small)

subsection \<open>Some values\<close>

text \<open>
  The quotients and sums of the examples below, the constant \<open>0.001f\<close>, and the first
  \<open>int\<close> that is not a float.
\<close>

lemma fround_16_9: "fround (16 / 9) = Fin (14913081 / 8388608)"
  unfolding fround_def float_exponent_def Let_def
  by (simp add: exponent_up.simps exponent_down.simps pow2_def round_half_even_def)

lemma fround_9_20: "fround (9 / 20) = Fin (7549747 / 16777216)"
  unfolding fround_def float_exponent_def Let_def
  by (simp add: exponent_up.simps exponent_down.simps pow2_def round_half_even_def)

lemma EPSILON_value: "EPSILON = Fin (8589935 / 8589934592)"
  unfolding EPSILON_def fround_def float_exponent_def Let_def
  by (simp add: exponent_up.simps exponent_down.simps pow2_def round_half_even_def)

lemma fround_1920_eps: "fround (1920 + 8589935 / 8589934592) = Fin (1966081 / 1024)"
  unfolding fround_def float_exponent_def Let_def
  by (simp add: exponent_up.simps exponent_down.simps pow2_def round_half_even_def)

lemma fround_1080_eps: "fround (1080 + 8589935 / 8589934592) = Fin (1105921 / 1024)"
  unfolding fround_def float_exponent_def Let_def
  by (simp add: exponent_up.simps exponent_down.simps pow2_def round_half_even_def)

lemma i2f_16777217: "i2f 16777217 = Fin 16777216"
  unfolding i2f_def fround_def float_exponent_def Let_def
  by (simp add: exponent_up.simps exponent_down.simps pow2_def round_half_even_def)

lemma jadd_1920_EPSILON: "jadd (i2f 1920) EPSILON = Fin (1966081 / 1024)"
  using fround_1920_eps by (simp add: EPSILON_value)

lemma jadd_1080_EPSILON: "jadd (i2f 1080) EPSILON = Fin (1105921 / 1024)"
  using fround_1080_eps by (simp add: EPSILON_value)

subsection \<open>Clamping\<close>

lemma jle_refl: "x \<noteq> NaN \<Longrightarrow> jle x x"
  by (cases x) (simp_all add: jle_def)

lemma jlt_irrefl [simp]: "\<not> jlt x x"
  by (cases x) simp_all

lemma clamp_bounds:
  assumes "jle lo hi"
  shows "jle lo (clamp lo hi x)" "jle (clamp lo hi x) hi"
  using assms by (auto simp add: clamp_def jle_def)

lemma clamp_inside: "jle lo x \<Longrightarrow> jle x hi \<Longrightarrow> clamp lo hi x = x"
  by (simp add: clamp_def)

lemma clamp_to_image_in_image:
  assumes "0 \<le> imageWidth rd" "0 \<le> imageHeight rd"
  shows "cursor_in_image (rd\<lparr> cursorPosition := clamp_to_image rd p \<rparr>)"
  using clamp_bounds [OF i2f_nonneg [OF assms(1)]] clamp_bounds [OF i2f_nonneg [OF assms(2)]]
  by (simp add: cursor_in_image_def clamp_to_image_def)

section \<open>Properties of the native client\<close>

lemma same_settings_call [simp]: "same_settings g (call c g)"
  by (simp add: same_settings_def call_def)

lemma call_fields [simp]:
  "conn (call c g) = conn g" "xfixes_first_event (call c g) = xfixes_first_event g"
  "err_ctx (call c g) = err_ctx g" "win (call c g) = win g" "prop_sel (call c g) = prop_sel g"
  "atom_clipboard (call c g) = atom_clipboard g"
  "clipboard_sync_enabled (call c g) = clipboard_sync_enabled g"
  "calls (call c g) = calls g @ [c]"
  by (simp_all add: call_def)

lemma parse_error_fields [simp]:
  "conn (parse_error e g) = conn g" "xfixes_first_event (parse_error e g) = xfixes_first_event g"
  "err_ctx (parse_error e g) = err_ctx g" "win (parse_error e g) = win g"
  "prop_sel (parse_error e g) = prop_sel g"
  "atom_clipboard (parse_error e g) = atom_clipboard g"
  "clipboard_sync_enabled (parse_error e g) = clipboard_sync_enabled g"
  by (cases e; simp)+

lemma parse_error_converts [simp]:
  "filter is_convert (calls (parse_error e g)) = filter is_convert (calls g)"
  by (cases e) simp_all

lemma selection_response_settings: "same_settings g (selection_response c ev g)"
  by (simp add: same_settings_def selection_response_def Let_def split: option.splits)

lemma selection_response_converts:
  "filter is_convert (calls (selection_response c ev g)) = filter is_convert (calls g)"
  by (simp add: selection_response_def Let_def split: option.splits)

lemma handle_event_settings: "same_settings g (handle_event c ev g)"
  using selection_response_settings [of "call (LogResponse (response_type ev)) g" c ev]
  by (simp add: same_settings_def handle_event_def Let_def)

lemma handle_event_converts:
  "filter is_convert (calls (handle_event c ev g)) =
     filter is_convert (calls g) @
     (if clipboard_sync_enabled g \<and> selection_owner_change g ev
      then [ConvertSelection c (win g) (atom_clipboard g) XCB_ATOM_STRING (prop_sel g)
              XCB_CURRENT_TIME]
      else [])"
  by (simp add: handle_event_def Let_def selection_owner_change_def selection_response_converts)

lemma poll_loop_converts:
  "filter is_convert (calls (poll_loop c pending g)) =
     filter is_convert (calls g) @
     (if clipboard_sync_enabled g
      then replicate (length (filter (selection_owner_change g) pending))
             (ConvertSelection c (win g) (atom_clipboard g) XCB_ATOM_STRING (prop_sel g)
                XCB_CURRENT_TIME)
      else [])"
proof (induction pending arbitrary: g)
  case Nil
  show ?case by simp
next
  case (Cons ev evs)
  have same: "same_settings g (handle_event c ev g)"
    by (rule handle_event_settings)
  then have soc: "selection_owner_change (handle_event c ev g) = selection_owner_change g"
    by (simp add: same_settings_def selection_owner_change_def fun_eq_iff)
  show ?case
    using same by (simp add: Cons.IH handle_event_converts soc same_settings_def)
qed


text \<open>
  Claim C8: with a connection installed, after clipboard sync is set to Disabled the event
  handler issues no selection-conversion request, whatever events are pending; after it is
  set to Enabled it issues exactly one conversion request for each selection-owner-change
  notification, addressed to the proxy window \<open>win\<close>, for the clipboard selection, with
  the string type as target and the transfer property as destination.
\<close>

theorem clipboard_sync_gates_conversion:
  assumes "conn g = Some c"
  shows "filter is_convert
           (calls (Java_com_termux_x11_MainActivity_handleXEvents pending
                     (Java_com_termux_x11_MainActivity_setClipboardSyncEnabled enabled g))) =
         filter is_convert (calls g) @
         (if enabled
          then replicate (length (filter (selection_owner_change g) pending))
                 (ConvertSelection c (win g) (atom_clipboard g) XCB_ATOM_STRING (prop_sel g)
                    XCB_CURRENT_TIME)
          else [])"
proof -
  let ?g = "Java_com_termux_x11_MainActivity_setClipboardSyncEnabled enabled g"
  have soc: "selection_owner_change ?g = selection_owner_change g"
    by (simp add: selection_owner_change_def fun_eq_iff
        Java_com_termux_x11_MainActivity_setClipboardSyncEnabled_def)
  have fields: "conn ?g = Some c" "clipboard_sync_enabled ?g = enabled" "win ?g = win g"
    "atom_clipboard ?g = atom_clipboard g" "prop_sel ?g = prop_sel g" "calls ?g = calls g"
    using assms by (simp_all add: Java_com_termux_x11_MainActivity_setClipboardSyncEnabled_def)
  have "Java_com_termux_x11_MainActivity_handleXEvents pending ?g = poll_loop c pending ?g"
    by (simp add: Java_com_termux_x11_MainActivity_handleXEvents_def fields)
  then show ?thesis
    by (simp only: poll_loop_converts soc fields)
qed

text \<open>
  One pending owner-change notification on a connection whose XFIXES events start at 87:
  one conversion request when enabled, none when disabled.
\<close>

theorem clipboard_sync_gates_conversion_witness:
  "conn demo_globals = Some 1 \<and>
   filter is_convert
     (calls (Java_com_termux_x11_MainActivity_handleXEvents [owner_change_event]
               (Java_com_termux_x11_MainActivity_setClipboardSyncEnabled True demo_globals))) =
   [ConvertSelection 1 5 300 31 301 0] \<and>
   filter is_convert
     (calls (Java_com_termux_x11_MainActivity_handleXEvents [owner_change_event]
               (Java_com_termux_x11_MainActivity_setClipboardSyncEnabled False demo_globals))) = []"
proof -
  have c: "conn demo_globals = Some 1"
    by (simp add: demo_globals_def initial_globals_def)
  have oc: "selection_owner_change demo_globals owner_change_event"
    by (simp add: selection_owner_change_def demo_globals_def initial_globals_def
        owner_change_event_def XCB_XFIXES_SELECTION_NOTIFY_def)
  have vals: "win demo_globals = 5" "atom_clipboard demo_globals = 300"
    "prop_sel demo_globals = 301" "calls demo_globals = []"
    by (simp_all add: demo_globals_def initial_globals_def)
  show ?thesis
    using clipboard_sync_gates_conversion [OF c, of "[owner_change_event]" True]
      clipboard_sync_gates_conversion [OF c, of "[owner_change_event]" False]
    by (simp add: c oc vals XCB_ATOM_STRING_def XCB_CURRENT_TIME_def)
qed

text \<open>
  Claim C7: when no connection is installed, each of the five encode operations
  (screen-resize, mouse, touch, key, unicode) issues no request, raises no error and leaves
  the whole state as it was; the key operation still answers \<open>true\<close>.
\<close>

theorem encode_without_connection_is_noop:
  assumes "conn g = None"
  shows "Java_com_termux_x11_MainActivity_sendWindowChange width height g = g \<and>
         Java_com_termux_x11_MainActivity_sendMouseEvent x y which_button button_down relative g = g \<and>
         Java_com_termux_x11_MainActivity_sendTouchEvent action ident tx ty g = g \<and>
         Java_com_termux_x11_MainActivity_sendKeyEvent table scan_code key_code key_down g =
           Inr (True, g) \<and>
         Java_com_termux_x11_MainActivity_sendUnicodeEvent unicode g = g"
  using assms
  by (simp add: Java_com_termux_x11_MainActivity_sendWindowChange_def
      Java_com_termux_x11_MainActivity_sendMouseEvent_def
      Java_com_termux_x11_MainActivity_sendTouchEvent_def
      Java_com_termux_x11_MainActivity_sendKeyEvent_def
      Java_com_termux_x11_MainActivity_sendUnicodeEvent_def)

theorem encode_without_connection_is_noop_witness:
  "conn initial_globals = None \<and>
   Java_com_termux_x11_MainActivity_sendWindowChange 1080 2400 initial_globals = initial_globals \<and>
   Java_com_termux_x11_MainActivity_sendMouseEvent (Fin 3) (Fin 4) 1 True False initial_globals =
     initial_globals \<and>
   Java_com_termux_x11_MainActivity_sendTouchEvent 0 1 10 20 initial_globals = initial_globals \<and>
   Java_com_termux_x11_MainActivity_sendKeyEvent [] 0 66 True initial_globals =
     Inr (True, initial_globals) \<and>
   Java_com_termux_x11_MainActivity_sendUnicodeEvent 955 initial_globals = initial_globals"
proof -
  have c: "conn initial_globals = None"
    by (simp add: initial_globals_def)
  show ?thesis
    using c encode_without_connection_is_noop
      [OF c, of 1080 2400 "Fin 3" "Fin 4" 1 True False 0 1 10 20 "[]" 0 66 True 955]
    by simp
qed

text \<open>
  A touch-point event with a non-negative action on an installed connection: the request is
  issued and the call returns without a flush.
\<close>

theorem touch_event_not_flushed:
  "calls (Java_com_termux_x11_MainActivity_sendTouchEvent 0 1 10 20
            (initial_globals\<lparr> conn := Some 7 \<rparr>)) = [TouchEvent 7 0 1 10 20] \<and>
   Flush 7 \<notin> set (calls (Java_com_termux_x11_MainActivity_sendTouchEvent 0 1 10 20
            (initial_globals\<lparr> conn := Some 7 \<rparr>)))"
  by (simp add: Java_com_termux_x11_MainActivity_sendTouchEvent_def initial_globals_def call_def)

text \<open>
  Claim C6, as amended: with a connection installed, the screen-resize, mouse, key and
  unicode operations each issue their request and then flush the connection before they
  return (the key operation unless it fails on a key code outside the table, which can only
  happen without a scan code); the touch operation issues its request without a flush when
  the action is not negative, and only flushes when the action is negative.
\<close>

theorem encode_flush_per_operation:
  assumes "conn g = Some c"
  shows "calls (Java_com_termux_x11_MainActivity_sendWindowChange width height g) =
           calls g @ [ScreenSizeChange c width height, Flush c] \<and>
         calls (Java_com_termux_x11_MainActivity_sendMouseEvent x y which_button button_down relative g) =
           calls g @ [LogMouseEvent, MouseEvent c x y which_button button_down relative, Flush c] \<and>
         (case Java_com_termux_x11_MainActivity_sendKeyEvent table scan_code key_code key_down g of
            Inl e \<Rightarrow> scan_code = 0 \<and> \<not> (0 \<le> key_code \<and> key_code < int (length table))
          | Inr (r, g') \<Rightarrow>
              r \<and> calls g' = calls g @
                [KeyEvent c ((if scan_code \<noteq> 0 then scan_code else table ! nat key_code) + 8)
                   key_down,
                 Flush c]) \<and>
         calls (Java_com_termux_x11_MainActivity_sendUnicodeEvent unicode g) =
           calls g @ [UnicodeEvent c unicode, Flush c] \<and>
         calls (Java_com_termux_x11_MainActivity_sendTouchEvent action ident tx ty g) =
           calls g @ (if 0 \<le> action then [TouchEvent c action ident tx ty] else [Flush c])"
  using assms
  by (simp add: Java_com_termux_x11_MainActivity_sendWindowChange_def
      Java_com_termux_x11_MainActivity_sendMouseEvent_def
      Java_com_termux_x11_MainActivity_sendTouchEvent_def
      Java_com_termux_x11_MainActivity_sendKeyEvent_def
      Java_com_termux_x11_MainActivity_sendUnicodeEvent_def)

theorem encode_flush_per_operation_witness:
  "conn demo_globals = Some 1 \<and>
   calls (Java_com_termux_x11_MainActivity_sendWindowChange 1080 2400 demo_globals) =
     [ScreenSizeChange 1 1080 2400, Flush 1] \<and>
   calls (Java_com_termux_x11_MainActivity_sendMouseEvent (Fin 3) (Fin 4) 1 True False demo_globals) =
     [LogMouseEvent, MouseEvent 1 (Fin 3) (Fin 4) 1 True False, Flush 1] \<and>
   calls (Java_com_termux_x11_MainActivity_sendUnicodeEvent 955 demo_globals) =
     [UnicodeEvent 1 955, Flush 1] \<and>
   calls (Java_com_termux_x11_MainActivity_sendTouchEvent 0 1 10 20 demo_globals) =
     [TouchEvent 1 0 1 10 20] \<and>
   calls (Java_com_termux_x11_MainActivity_sendTouchEvent (- 1) 0 0 0 demo_globals) = [Flush 1]"
proof -
  have c: "conn demo_globals = Some 1"
    by (simp add: demo_globals_def initial_globals_def)
  have e: "calls demo_globals = []"
    by (simp add: demo_globals_def initial_globals_def)
  show ?thesis
    using c
      encode_flush_per_operation
        [OF c, where width = 1080 and height = 2400 and x = "Fin 3" and y = "Fin 4"
           and which_button = 1 and button_down = True and relative = False
           and unicode = 955 and action = 0 and ident = 1 and tx = 10 and ty = 20]
      encode_flush_per_operation
        [OF c, where action = "- 1" and ident = 0 and tx = 0 and ty = 0]
    by (simp add: e)
qed

text \<open>Setup never ends without installing the candidate connection.\<close>

lemma connect_installs_candidate:
  "conn (Java_com_termux_x11_MainActivity_connect env g) = Some (new_conn env)"
  by (simp add: Java_com_termux_x11_MainActivity_connect_def Let_def split: option.splits)

text \<open>
  Claim C5: a candidate connection on which the transport reports a connection-level error
  should be discarded and setup aborted. Here the transport reports \<open>XCB_CONN_ERROR\<close> (1)
  for the candidate: the error is logged, and setup goes on all the same; the candidate
  becomes the installed connection, success is logged and every negotiation step is issued
  on it.
\<close>

theorem connect_installs_errored_connection:
  "conn (Java_com_termux_x11_MainActivity_connect failing_env initial_globals) = Some 1 \<and>
   calls (Java_com_termux_x11_MainActivity_connect failing_env initial_globals) =
     [LogConnError ''XCB_CONN_ERROR'', ErrorsContextNew 1, LogConnSuccessful,
      QueryExtension 1 ''XFIXES'', XfixesQueryVersion 1 4 0,
      InternAtom 1 False ''CLIPBOARD'', InternAtom 1 False ''TERMUX_X11_CLIP'',
      SelectSelectionInput 1 0 0 1, GenerateId 1, CreateWindow 1 0 0, Flush 1]"
  by (simp add: Java_com_termux_x11_MainActivity_connect_def failing_env_def initial_globals_def
      conn_err_name_def call_def Let_def
      XCB_XFIXES_SELECTION_EVENT_MASK_SET_SELECTION_OWNER_def)

section \<open>Properties of the touch input handler\<close>

subsection \<open>What each operation leaves unchanged\<close>

lemma emit_fields [simp]:
  "mRenderData (emit x s) = mRenderData s" "main_handler (emit x s) = main_handler s"
  "touchpad_handler (emit x s) = touchpad_handler s" "mInjector (emit x s) = mInjector s"
  "effects (emit x s) = effects s @ [x]" "self w (emit x s) = self w s"
  by (cases w; simp add: emit_def)+

lemma self_update_fields [simp]:
  "mRenderData (self_update w f s) = mRenderData s" "mInjector (self_update w f s) = mInjector s"
  "effects (self_update w f s) = effects s"
  "self w' (self_update w f s) = (if w' = w then f (self w s) else self w' s)"
  by (cases w; cases w'; simp)+

lemma map_render_data_fields [simp]:
  "mRenderData (map_render_data f s) = f (mRenderData s)"
  "mInjector (map_render_data f s) = mInjector s"
  "effects (map_render_data f s) = effects s" "self w (map_render_data f s) = self w s"
  by (cases w; simp add: map_render_data_def)+

lemma self_record_update [simp]:
  "self w (s\<lparr> mRenderData := rd \<rparr>) = self w s" "self w (s\<lparr> effects := xs \<rparr>) = self w s"
  "self w (s\<lparr> mInjector := i \<rparr>) = self w s"
  by (cases w; simp)+

declare self.simps [simp del] self_update.simps [simp del] f2i.simps [simp del]

lemma resetTransformation_fields [simp]:
  "mRenderData (resetTransformation s) =
     (mRenderData s)\<lparr> transform :=
        \<lparr> scaleX = jdiv (i2f (imageWidth (mRenderData s))) (i2f (screenWidth (mRenderData s))),
          scaleY = jdiv (i2f (imageHeight (mRenderData s))) (i2f (screenHeight (mRenderData s))) \<rparr> \<rparr>"
  "mInjector (resetTransformation s) = mInjector s"
  "effects (resetTransformation s) = effects s" "self w (resetTransformation s) = self w s"
  by (simp_all add: resetTransformation_def Let_def setScale_def)

lemma moveCursor_fields [simp]:
  "mRenderData (moveCursor w x y s) =
     (mRenderData s)\<lparr> cursorPosition := clamp_to_image (mRenderData s) (x, y) \<rparr>"
  "mInjector (moveCursor w x y s) = mInjector s"
  "self w' (moveCursor w x y s) = self w' s"
  by (simp_all add: moveCursor_def setCursorPosition_def Let_def)

lemma moveCursor_effects:
  "effects (moveCursor w x y s) =
     effects s @
     (if jne (fst (clamp_to_image (mRenderData s) (x, y))) (fst (cursorPosition (mRenderData s))) \<or>
         jne (snd (clamp_to_image (mRenderData s) (x, y))) (snd (cursorPosition (mRenderData s)))
      then [InjectCursorMoveEvent w (f2i x) (f2i y)] else []) @
     [RenderStubMoveCursor (clamp_to_image (mRenderData s) (x, y))]"
  by (simp add: moveCursor_def setCursorPosition_def Let_def getCursorPosition_def)

lemma moveCursorToScreenPoint_fields [simp]:
  "mRenderData (moveCursorToScreenPoint w x y s) =
     (mRenderData s)\<lparr> cursorPosition :=
        clamp_to_image (mRenderData s) (mapScreenPointToImagePoint s x y) \<rparr>"
  "mInjector (moveCursorToScreenPoint w x y s) = mInjector s"
  "self w' (moveCursorToScreenPoint w x y s) = self w' s"
  by (simp_all add: moveCursorToScreenPoint_def Let_def)

lemma clamp_to_image_sizes [simp]:
  "clamp_to_image (rd\<lparr> cursorPosition := p \<rparr>) = clamp_to_image rd"
  "clamp_to_image (rd\<lparr> transform := m \<rparr>) = clamp_to_image rd"
  by (simp_all add: clamp_to_image_def fun_eq_iff)

lemma handleClientSizeChanged_render_data:
  "mRenderData (handleClientSizeChanged w width height s) =
     (mRenderData s)\<lparr> screenWidth := width, screenHeight := height,
        transform :=
          \<lparr> scaleX = jdiv (i2f (imageWidth (mRenderData s))) (i2f width),
            scaleY = jdiv (i2f (imageHeight (mRenderData s))) (i2f height) \<rparr> \<rparr>"
  by (cases w) simp_all

lemma handleHostSizeChanged_transform:
  "transform (mRenderData (handleHostSizeChanged w width height s)) =
     \<lparr> scaleX = jdiv (i2f width) (i2f (screenWidth (mRenderData s))),
       scaleY = jdiv (i2f height) (i2f (screenHeight (mRenderData s))) \<rparr>"
  by (cases w) (simp_all add: Let_def)

lemma handleHostSizeChanged_sizes:
  "imageWidth (mRenderData (handleHostSizeChanged w width height s)) = width"
  "imageHeight (mRenderData (handleHostSizeChanged w width height s)) = height"
  "screenWidth (mRenderData (handleHostSizeChanged w width height s)) = screenWidth (mRenderData s)"
  "screenHeight (mRenderData (handleHostSizeChanged w width height s)) = screenHeight (mRenderData s)"
  by (cases w; simp add: Let_def)+

lemma handleHostSizeChanged_in_image:
  "0 \<le> width \<Longrightarrow> 0 \<le> height \<Longrightarrow>
     cursor_in_image (mRenderData (handleHostSizeChanged w width height s))"
  by (cases w)
     (simp_all add: Let_def cursor_in_image_def clamp_to_image_def clamp_bounds i2f_nonneg)

declare handleClientSizeChanged.simps [simp del] handleHostSizeChanged.simps [simp del]
  handleTouchEvent.simps [simp del]

subsection \<open>The handlers used as concrete inputs\<close>

lemma fresh_render_data: "mRenderData fresh_world = new_RenderData"
  by (simp add: fresh_world_def new_TouchInputHandler_def)

lemma sized_render_data:
  "screenWidth (mRenderData sized_world) = 1080" "screenHeight (mRenderData sized_world) = 2400"
  "imageWidth (mRenderData sized_world) = 1920" "imageHeight (mRenderData sized_world) = 1080"
  "transform (mRenderData sized_world) =
     \<lparr> scaleX = Fin (14913081 / 8388608), scaleY = Fin (7549747 / 16777216) \<rparr>"
  by (simp_all add: sized_world_def handleHostSizeChanged_sizes handleHostSizeChanged_transform
      handleClientSizeChanged_render_data fround_16_9 fround_9_20)

lemma same_size_render_data:
  "mRenderData same_size_world =
     \<lparr> screenWidth = 1920, screenHeight = 1080, imageWidth = 1920, imageHeight = 1080,
       transform = \<lparr> scaleX = Fin 1, scaleY = Fin 1 \<rparr>,
       cursorPosition = (Fin 960, Fin 540) \<rparr>"
  by (simp add: same_size_world_def handleHostSizeChanged.simps handleClientSizeChanged_render_data
      fresh_render_data new_RenderData_def Let_def mapScreenPointToImagePoint_def invert_def
      mapPoints_def new_Matrix_def clamp_to_image_def clamp_def jle_def)

subsection \<open>The transform after a size change\<close>

text \<open>
  A 1920 by 1080 image on a 1080 by 2400 view: after either size change the scale is the pair
  of floats (14913081 / 2 ^ 23, 7549747 / 2 ^ 24), which are not the quotients 1920 / 1080 and
  1080 / 2400: neither quotient is a float.
\<close>

theorem size_change_scale_is_rounded:
  "imageWidth (mRenderData sized_world) = 1920 \<and> imageHeight (mRenderData sized_world) = 1080 \<and>
   screenWidth (mRenderData sized_world) = 1080 \<and> screenHeight (mRenderData sized_world) = 2400 \<and>
   transform (mRenderData (handleClientSizeChanged Main 1080 2400 sized_world)) =
     \<lparr> scaleX = Fin (14913081 / 8388608), scaleY = Fin (7549747 / 16777216) \<rparr> \<and>
   transform (mRenderData (handleHostSizeChanged Main 1920 1080 sized_world)) =
     \<lparr> scaleX = Fin (14913081 / 8388608), scaleY = Fin (7549747 / 16777216) \<rparr> \<and>
   Fin (14913081 / 8388608) \<noteq> Fin (1920 / 1080) \<and> Fin (7549747 / 16777216) \<noteq> Fin (1080 / 2400)"
  by (simp add: handleClientSizeChanged_render_data handleHostSizeChanged_transform
      sized_render_data fround_16_9 fround_9_20)

text \<open>
  Claim C2, as amended: after a screen-size change (\<open>handleClientSizeChanged\<close>) and after
  an image-size change (\<open>handleHostSizeChanged\<close>), on either handler, the transform is the
  scaling by the float quotients \<open>(float) imageW / screenW\<close> and
  \<open>(float) imageH / screenH\<close>. For positive sizes below \<open>2 ^ 24\<close> the float quotient is
  the quotient rounded to the nearest float; it is the quotient itself only when that is a
  float.
\<close>

theorem size_change_sets_scale:
  "(imageWidth (mRenderData s) = imageW \<and> imageHeight (mRenderData s) = imageH \<longrightarrow>
      transform (mRenderData (handleClientSizeChanged w screenW screenH s)) =
        \<lparr> scaleX = jdiv (i2f imageW) (i2f screenW), scaleY = jdiv (i2f imageH) (i2f screenH) \<rparr>) \<and>
   (screenWidth (mRenderData s) = screenW \<and> screenHeight (mRenderData s) = screenH \<longrightarrow>
      transform (mRenderData (handleHostSizeChanged w imageW imageH s)) =
        \<lparr> scaleX = jdiv (i2f imageW) (i2f screenW), scaleY = jdiv (i2f imageH) (i2f screenH) \<rparr>) \<and>
   (0 < imageW \<and> imageW < 16777216 \<and> 0 < screenW \<and> screenW < 16777216 \<longrightarrow>
      jdiv (i2f imageW) (i2f screenW) = fround (real_of_int imageW / real_of_int screenW)) \<and>
   (0 < imageH \<and> imageH < 16777216 \<and> 0 < screenH \<and> screenH < 16777216 \<longrightarrow>
      jdiv (i2f imageH) (i2f screenH) = fround (real_of_int imageH / real_of_int screenH))"
proof -
  have client: "imageWidth (mRenderData s) = imageW \<and> imageHeight (mRenderData s) = imageH \<longrightarrow>
      transform (mRenderData (handleClientSizeChanged w screenW screenH s)) =
        \<lparr> scaleX = jdiv (i2f imageW) (i2f screenW), scaleY = jdiv (i2f imageH) (i2f screenH) \<rparr>"
    by (simp add: handleClientSizeChanged_render_data)
  have host: "screenWidth (mRenderData s) = screenW \<and> screenHeight (mRenderData s) = screenH \<longrightarrow>
      transform (mRenderData (handleHostSizeChanged w imageW imageH s)) =
        \<lparr> scaleX = jdiv (i2f imageW) (i2f screenW), scaleY = jdiv (i2f imageH) (i2f screenH) \<rparr>"
    by (simp add: handleHostSizeChanged_transform)
  have x: "0 < imageW \<and> imageW < 16777216 \<and> 0 < screenW \<and> screenW < 16777216 \<longrightarrow>
      jdiv (i2f imageW) (i2f screenW) = fround (real_of_int imageW / real_of_int screenW)"
    using jdiv_i2f [of imageW screenW] by simp
  have y: "0 < imageH \<and> imageH < 16777216 \<and> 0 < screenH \<and> screenH < 16777216 \<longrightarrow>
      jdiv (i2f imageH) (i2f screenH) = fround (real_of_int imageH / real_of_int screenH)"
    using jdiv_i2f [of imageH screenH] by simp
  show ?thesis
    using client host x y by blast
qed

text \<open>
  A 1920 by 1080 image on a 1080 by 2400 view: the scale is the pair of floats nearest to
  16/9 and to 9/20.
\<close>

theorem size_change_sets_scale_witness:
  "imageWidth (mRenderData sized_world) = 1920 \<and> imageHeight (mRenderData sized_world) = 1080 \<and>
   screenWidth (mRenderData sized_world) = 1080 \<and> screenHeight (mRenderData sized_world) = 2400 \<and>
   transform (mRenderData (handleClientSizeChanged Main 1080 2400 sized_world)) =
     \<lparr> scaleX = Fin (14913081 / 8388608), scaleY = Fin (7549747 / 16777216) \<rparr> \<and>
   transform (mRenderData (handleHostSizeChanged Main 1920 1080 sized_world)) =
     \<lparr> scaleX = Fin (14913081 / 8388608), scaleY = Fin (7549747 / 16777216) \<rparr> \<and>
   jdiv (i2f 1920) (i2f 1080) = fround (1920 / 1080) \<and>
   jdiv (i2f 1080) (i2f 2400) = fround (1080 / 2400)"
  using size_change_sets_scale [of sized_world 1920 1080 Main 1080 2400]
  by (simp add: sized_render_data fround_16_9 fround_9_20)

text \<open>
  A zero screen size, and a zero image size, on a handler whose transform is the scaling by
  the floats nearest to (16/9, 9/20): the transform is not retained, it becomes the scaling
  by (+Infinity, +Infinity), respectively by (0, 0).
\<close>

theorem zero_size_overwrites_transform:
  "transform (mRenderData sized_world) =
     \<lparr> scaleX = Fin (14913081 / 8388608), scaleY = Fin (7549747 / 16777216) \<rparr> \<and>
   transform (mRenderData (handleClientSizeChanged Main 0 0 sized_world)) =
     \<lparr> scaleX = PInf, scaleY = PInf \<rparr> \<and>
   transform (mRenderData (handleHostSizeChanged Main 0 0 sized_world)) =
     \<lparr> scaleX = Fin 0, scaleY = Fin 0 \<rparr>"
  by (simp add: handleClientSizeChanged_render_data handleHostSizeChanged_transform
      sized_render_data signed_inf_def)

text \<open>
  Claim C3, as amended: a size change is not guarded against a zero size. Whatever the sizes,
  the transform is recomputed as the scaling by the float quotients of the image size and
  the screen size, and the previous transform is overwritten. The division is a float
  division, which raises nothing: a zero screen size makes the factor +Infinity for a positive
  image size and NaN for a zero one, and a zero image size makes it 0.
\<close>

theorem zero_size_recomputes_transform:
  "transform (mRenderData (handleClientSizeChanged w width height s)) =
     \<lparr> scaleX = jdiv (i2f (imageWidth (mRenderData s))) (i2f width),
       scaleY = jdiv (i2f (imageHeight (mRenderData s))) (i2f height) \<rparr> \<and>
   transform (mRenderData (handleHostSizeChanged w width height s)) =
     \<lparr> scaleX = jdiv (i2f width) (i2f (screenWidth (mRenderData s))),
       scaleY = jdiv (i2f height) (i2f (screenHeight (mRenderData s))) \<rparr> \<and>
   jdiv (i2f n) (i2f 0) = (if n = 0 then NaN else if 0 < n then PInf else NInf) \<and>
   jdiv (i2f 0) (i2f n) = (if n = 0 then NaN else Fin 0)"
proof -
  have client: "transform (mRenderData (handleClientSizeChanged w width height s)) =
     \<lparr> scaleX = jdiv (i2f (imageWidth (mRenderData s))) (i2f width),
       scaleY = jdiv (i2f (imageHeight (mRenderData s))) (i2f height) \<rparr>"
    by (simp add: handleClientSizeChanged_render_data)
  show ?thesis
    by (rule conjI [OF client conjI [OF handleHostSizeChanged_transform
          conjI [OF jdiv_by_zero jdiv_of_zero]]])
qed

text \<open>A zero screen width, and a zero image size, on the 1080 by 2400 view.\<close>

theorem zero_size_recomputes_transform_witness:
  "transform (mRenderData (handleClientSizeChanged Main 0 2400 sized_world)) =
     \<lparr> scaleX = PInf, scaleY = Fin (7549747 / 16777216) \<rparr> \<and>
   transform (mRenderData (handleHostSizeChanged Main 0 0 sized_world)) =
     \<lparr> scaleX = Fin 0, scaleY = Fin 0 \<rparr>"
  using zero_size_recomputes_transform [of Main 0 2400 sized_world 1920] zero_size_recomputes_transform [of Main 0 0 sized_world 1080]
  by (simp add: sized_render_data fround_9_20)

subsection \<open>Cursor moves\<close>

lemma moveCursorByOffset_cursor:
  "mRenderData (moveCursorByOffset w dx dy s) =
     (mRenderData s)\<lparr> cursorPosition := clamp_to_image (mRenderData s)
       (let x = jadd (fst (cursorPosition (mRenderData s))) (jneg dx);
            y = jadd (snd (cursorPosition (mRenderData s))) (jneg dy);
            x = (if jlt x (Fin 0) then Fin 0 else x);
            y = (if jlt y (Fin 0) then Fin 0 else y)
        in (if jgt x (i2f (screenWidth (mRenderData s))) then i2f (screenWidth (mRenderData s)) else x,
            if jgt y (i2f (screenHeight (mRenderData s))) then i2f (screenHeight (mRenderData s)) else y)) \<rparr>"
  by (simp add: moveCursorByOffset_def Let_def getCursorPosition_def)

lemma placeCursor_render_data:
  "mRenderData (placeCursor e s) =
     (mRenderData s)\<lparr> cursorPosition := clamp_to_image (mRenderData s)
        (mapScreenPointToImagePoint s (i2f (f2i (getX e))) (i2f (f2i (getY e)))) \<rparr>"
  by (simp add: placeCursor_def Let_def setCursorPosition_def split: prod.splits)

lemma mapScreenPointToImagePoint_cong:
  "mRenderData s' = mRenderData s \<Longrightarrow>
     mapScreenPointToImagePoint s' x y = mapScreenPointToImagePoint s x y"
  by (simp add: mapScreenPointToImagePoint_def)

lemma sendButtonChanges_render_data [simp]:
  "mRenderData (sendButtonChanges a b s) = mRenderData s"
  by (simp add: sendButtonChanges_def Let_def)

lemma HardwareMouseListener_render_data:
  "mRenderData (snd (HardwareMouseListener_onTouch w v e s)) =
     (if getAction e = ACTION_SCROLL then mRenderData s
      else (mRenderData s)\<lparr> cursorPosition := clamp_to_image (mRenderData s)
             (mapScreenPointToImagePoint s (i2f (f2i (getX e))) (i2f (f2i (getY e)))) \<rparr>)"
proof (cases "getAction e = ACTION_SCROLL")
  case True
  then show ?thesis
    by (simp add: HardwareMouseListener_onTouch_def Let_def)
next
  case False
  let ?s = "if pointerCapture (mInjector s) \<and> \<not> hasPointerCapture v \<and> getAction e = ACTION_UP
            then emit RequestPointerCapture s else s"
  have rd: "mRenderData ?s = mRenderData s" by simp
  have "mRenderData (snd (HardwareMouseListener_onTouch w v e s)) = mRenderData (placeCursor e ?s)"
    using False by (simp add: HardwareMouseListener_onTouch_def Let_def)
  also have "\<dots> = (mRenderData ?s)\<lparr> cursorPosition := clamp_to_image (mRenderData ?s)
      (mapScreenPointToImagePoint ?s (i2f (f2i (getX e))) (i2f (f2i (getY e)))) \<rparr>"
    by (rule placeCursor_render_data)
  also have "\<dots> = (mRenderData s)\<lparr> cursorPosition := clamp_to_image (mRenderData s)
      (mapScreenPointToImagePoint s (i2f (f2i (getX e))) (i2f (f2i (getY e)))) \<rparr>"
    by (simp only: rd mapScreenPointToImagePoint_cong [OF rd])
  finally show ?thesis using False by simp
qed

text \<open>
  Claim C1: on an image whose width and height are not negative, every operation that moves
  the cursor leaves it in the image, \<open>0 \<le> x \<le> imageWidth\<close> and
  \<open>0 \<le> y \<le> imageHeight\<close>: an offset move, a warp to a screen point, a move to an image
  point, a move of a hardware mouse (whose scroll leaves the cursor where it was), the
  absolute placement by a docked touchpad, and the warp to the middle that an image-size
  change makes. The position is clamped when it is stored, by \<open>setCursorPosition\<close>; what
  \<open>moveCursorByOffset\<close> clamps before that is the offset position, by the size of the view.
\<close>

theorem cursor_moves_stay_in_image:
  assumes "0 \<le> imageWidth (mRenderData s)" and "0 \<le> imageHeight (mRenderData s)"
  shows "cursor_in_image (mRenderData (moveCursorByOffset w deltaX deltaY s)) \<and>
         cursor_in_image (mRenderData (moveCursorToScreenPoint w screenX screenY s)) \<and>
         cursor_in_image (mRenderData (moveCursor w newX newY s)) \<and>
         cursor_in_image (mRenderData (snd (HardwareMouseListener_onTouch w v e s))) =
           (if getAction e = ACTION_SCROLL then cursor_in_image (mRenderData s) else True) \<and>
         cursor_in_image (mRenderData (placeCursor e s)) \<and>
         (if 0 \<le> width \<and> 0 \<le> height
          then cursor_in_image (mRenderData (handleHostSizeChanged w width height s)) else True)"
proof -
  note inside = clamp_to_image_in_image [OF assms]
  have offset: "cursor_in_image (mRenderData (moveCursorByOffset w deltaX deltaY s))"
    by (simp only: moveCursorByOffset_cursor inside)
  have warp: "cursor_in_image (mRenderData (moveCursorToScreenPoint w screenX screenY s))"
    by (simp only: moveCursorToScreenPoint_fields inside)
  have move: "cursor_in_image (mRenderData (moveCursor w newX newY s))"
    by (simp only: moveCursor_fields inside)
  have mouse: "cursor_in_image (mRenderData (snd (HardwareMouseListener_onTouch w v e s))) =
      (if getAction e = ACTION_SCROLL then cursor_in_image (mRenderData s) else True)"
    by (simp add: HardwareMouseListener_render_data inside)
  have dock: "cursor_in_image (mRenderData (placeCursor e s))"
    by (simp only: placeCursor_render_data inside)
  have host: "if 0 \<le> width \<and> 0 \<le> height
      then cursor_in_image (mRenderData (handleHostSizeChanged w width height s)) else True"
    by (simp add: handleHostSizeChanged_in_image)
  show ?thesis
    by (intro conjI offset warp move mouse dock host)
qed

lemma cursor_at_render_data:
  "mRenderData (cursor_at x y s) = (mRenderData s)\<lparr> cursorPosition := (Fin x, Fin y) \<rparr>"
  by (simp add: cursor_at_def)

lemma offset_example:
  "cursorPosition (mRenderData (moveCursorByOffset Main (Fin 10000) (Fin 10000)
     (cursor_at 5 5 sized_world))) = (Fin 0, Fin 0)"
  "cursorPosition (mRenderData (moveCursorByOffset Main (Fin (- 10000)) (Fin (- 10000))
     (cursor_at 5 5 sized_world))) = (Fin 1080, Fin 1080)"
  by (simp_all add: moveCursorByOffset_cursor cursor_at_render_data sized_render_data Let_def
      jgt_def clamp_to_image_def clamp_def jle_def)

text \<open>
  With the cursor at (5, 5) on the 1920 by 1080 image, the offset move
  \<open>moveCursorByOffset(10000, 10000)\<close>, which displaces the cursor by (-10000, -10000),
  ends at (0, 0). On the 1080 by 2400 view the opposite move ends at (1080, 1080): the
  offset position is clamped to the view, and then to the image.
\<close>

theorem cursor_moves_stay_in_image_witness:
  "cursorPosition (mRenderData (cursor_at 5 5 sized_world)) = (Fin 5, Fin 5) \<and>
   imageWidth (mRenderData (cursor_at 5 5 sized_world)) = 1920 \<and>
   imageHeight (mRenderData (cursor_at 5 5 sized_world)) = 1080 \<and>
   cursorPosition (mRenderData (moveCursorByOffset Main (Fin 10000) (Fin 10000)
     (cursor_at 5 5 sized_world))) = (Fin 0, Fin 0) \<and>
   cursor_in_image (mRenderData (moveCursorByOffset Main (Fin 10000) (Fin 10000)
     (cursor_at 5 5 sized_world))) \<and>
   cursorPosition (mRenderData (moveCursorByOffset Main (Fin (- 10000)) (Fin (- 10000))
     (cursor_at 5 5 sized_world))) = (Fin 1080, Fin 1080) \<and>
   cursor_in_image (mRenderData (moveCursorByOffset Main (Fin (- 10000)) (Fin (- 10000))
     (cursor_at 5 5 sized_world)))"
proof -
  have w: "0 \<le> imageWidth (mRenderData (cursor_at 5 5 sized_world))"
    by (simp add: cursor_at_render_data sized_render_data)
  have h: "0 \<le> imageHeight (mRenderData (cursor_at 5 5 sized_world))"
    by (simp add: cursor_at_render_data sized_render_data)
  show ?thesis
    using cursor_moves_stay_in_image [OF w h, where deltaX = "Fin 10000" and deltaY = "Fin 10000" and w = Main]
      cursor_moves_stay_in_image [OF w h, where deltaX = "Fin (- 10000)" and deltaY = "Fin (- 10000)" and w = Main]
    by (simp add: offset_example cursor_at_render_data sized_render_data)
qed

subsection \<open>Swipes in a gesture session\<close>

lemma swipes_emit [simp]: "swipes (emit x s) = swipes s @ (if is_swipe x then [x] else [])"
  by (simp add: swipes_def)

lemma swipes_self_update [simp]: "swipes (self_update w f s) = swipes s"
  by (simp add: swipes_def)

lemma swipes_map_render_data [simp]: "swipes (map_render_data f s) = swipes s"
  by (simp add: swipes_def)

lemma swipes_moveCursor [simp]: "swipes (moveCursor w x y s) = swipes s"
  by (simp add: swipes_def moveCursor_effects)

lemma swipes_moveCursorToScreenPoint [simp]: "swipes (moveCursorToScreenPoint w x y s) = swipes s"
  by (simp add: moveCursorToScreenPoint_def Let_def)

lemma moveCursorByOffset_self [simp]: "self w' (moveCursorByOffset w dx dy s) = self w' s"
  by (simp add: moveCursorByOffset_def Let_def)

lemma swipes_moveCursorByOffset [simp]: "swipes (moveCursorByOffset w dx dy s) = swipes s"
  by (simp add: moveCursorByOffset_def Let_def)

lemma swipe_guarded_refl [simp]: "swipe_guarded w s s"
  by (simp add: swipe_guarded_def)












lemma run_append: "run w (xs @ ys) s = run w ys (run w xs s)"
  by (induction xs arbitrary: s) simp_all

lemma run_callbacks: "run w (map Callback cs) s = callbacks w cs s"
  by (induction cs arbitrary: s) simp_all

lemma gesturePipeline_run: "gesturePipeline w v d e s = run w (pipeline_ops v d e) s"
  by (simp add: gesturePipeline_def pipeline_ops_def Let_def run_append run_callbacks
      detector_def)

lemma handleTouchEvent_finger:
  assumes "getToolType e (getActionIndex e) = Some TOOL_TYPE_FINGER" "\<not> isDexEvent e"
    "(getSource e AND SOURCE_TOUCHPAD) \<noteq> SOURCE_TOUCHPAD"
  shows "handleTouchEvent w v d e s =
           Inr (True, run w (pipeline_ops v d e)
                  (if \<not> isFocused v \<and> getAction e = ACTION_DOWN then emit RequestFocus s else s))"
  using assms
  by (cases w)
     (simp_all add: handleTouchEvent.simps [of _ v d e s] Let_def gesturePipeline_run
        TOOL_TYPE_FINGER_def TOOL_TYPE_MOUSE_def)











lemma handleClientSizeChanged_self [simp]:
  "self w' (handleClientSizeChanged w width height s) = self w' s"
  by (cases w) (simp_all add: handleClientSizeChanged.simps Let_def)



lemma swipes_resetTransformation [simp]: "swipes (resetTransformation s) = swipes s"
  by (simp add: swipes_def)

lemma swipes_handleClientSizeChanged [simp]:
  "swipes (handleClientSizeChanged w width height s) = swipes s"
  by (cases w) (simp_all add: handleClientSizeChanged.simps Let_def)

lemma swipes_handleHostSizeChanged [simp]:
  "swipes (handleHostSizeChanged w width height s) = swipes s"
  by (cases w) (simp_all add: handleHostSizeChanged.simps Let_def)


lemma f2i_500 [simp]: "f2i (Fin 500) = 500"
  by (simp add: f2i.simps INT_MAX_def INT_MIN_def)



lemma f2i_5 [simp]: "f2i (Fin 5) = 5"
  by (simp add: f2i.simps INT_MAX_def INT_MIN_def)











subsection \<open>Taps and long presses\<close>

lemma outside_finite:
  assumes "mapScreenPointToImagePoint s x y = (Fin a, Fin b)"
    and "jadd (i2f (imageWidth (mRenderData s))) EPSILON = Fin u"
    and "jadd (i2f (imageHeight (mRenderData s))) EPSILON = Fin v"
  shows "screenPointLiesOutsideImageBoundary s x y =
           (a < - (8589935 / 8589934592) \<or> u < a \<or> b < - (8589935 / 8589934592) \<or> v < b)"
  unfolding screenPointLiesOutsideImageBoundary_def Let_def assms
  by (simp add: EPSILON_value jgt_def)

lemma undefined_button:
  "n \<noteq> 1 \<and> n \<noteq> 2 \<and> n \<noteq> 3 \<Longrightarrow> mouseButtonFromPointerCount n = BUTTON_UNDEFINED"
  by (simp add: mouseButtonFromPointerCount_def)

lemma defined_button:
  "n = 1 \<or> n = 2 \<or> n = 3 \<Longrightarrow> mouseButtonFromPointerCount n \<noteq> BUTTON_UNDEFINED"
  by (auto simp add: mouseButtonFromPointerCount_def BUTTON_UNDEFINED_def BUTTON_LEFT_def
      BUTTON_RIGHT_def BUTTON_MIDDLE_def)

lemma onTap_rejects_count:
  "n \<noteq> 1 \<and> n \<noteq> 2 \<and> n \<noteq> 3 \<Longrightarrow> onTap w n x y consumed s = (False, s)"
  by (simp add: onTap_def undefined_button)

lemma onLongPress_rejects_count:
  "n \<noteq> 1 \<and> n \<noteq> 2 \<and> n \<noteq> 3 \<Longrightarrow> onLongPress w n x y consumed s = s"
  by (simp add: onLongPress_def undefined_button)

lemma onTap_rejects_outside:
  "\<not> isIndirectInputMode (mInputStrategy (self w s)) \<and> screenPointLiesOutsideImageBoundary s x y \<Longrightarrow>
     onTap w n x y consumed s = (False, s)"
  by (simp add: onTap_def Let_def)

lemma onLongPress_rejects_outside:
  "\<not> isIndirectInputMode (mInputStrategy (self w s)) \<and> screenPointLiesOutsideImageBoundary s x y \<Longrightarrow>
     onLongPress w n x y consumed s = s"
  by (simp add: onLongPress_def Let_def)

lemma onTap_direct:
  assumes "n = 1 \<or> n = 2 \<or> n = 3" "\<not> isIndirectInputMode (mInputStrategy (self w s))"
    "\<not> screenPointLiesOutsideImageBoundary s x y"
  shows "onTap w n x y consumed s =
           (True,
            if consumed
            then emit (ShowInputFeedback (ShortPressFeedbackType (mInputStrategy (self w s)))
                         (clamp_to_image (mRenderData s) (mapScreenPointToImagePoint s x y)))
                   (emit (StrategyOnTap w (mouseButtonFromPointerCount n))
                      (moveCursorToScreenPoint w x y s))
            else emit (StrategyOnTap w (mouseButtonFromPointerCount n))
                   (moveCursorToScreenPoint w x y s))"
  using assms(2,3) defined_button [OF assms(1)]
  by (simp add: onTap_def Let_def getCursorPosition_def)

lemma onLongPress_direct:
  assumes "n = 1 \<or> n = 2 \<or> n = 3" "\<not> isIndirectInputMode (mInputStrategy (self w s))"
    "\<not> screenPointLiesOutsideImageBoundary s x y"
  shows "onLongPress w n x y consumed s =
           (if consumed
            then self_update w (\<lambda>h. h\<lparr> mIsDragging := True \<rparr>)
                   (emit (ShowInputFeedback (LongPressFeedbackType (mInputStrategy (self w s)))
                            (clamp_to_image (mRenderData s) (mapScreenPointToImagePoint s x y)))
                      (emit (StrategyOnPressAndHold w (mouseButtonFromPointerCount n))
                         (moveCursorToScreenPoint w x y s)))
            else emit (StrategyOnPressAndHold w (mouseButtonFromPointerCount n))
                   (moveCursorToScreenPoint w x y s))"
  using assms(2,3) defined_button [OF assms(1)]
  by (simp add: onLongPress_def Let_def getCursorPosition_def)

lemma onTap_indirect:
  assumes "n = 1 \<or> n = 2 \<or> n = 3" "isIndirectInputMode (mInputStrategy (self w s))"
  shows "onTap w n x y consumed s =
           (True,
            if consumed
            then emit (ShowInputFeedback (ShortPressFeedbackType (mInputStrategy (self w s)))
                         (cursorPosition (mRenderData s)))
                   (emit (StrategyOnTap w (mouseButtonFromPointerCount n)) s)
            else emit (StrategyOnTap w (mouseButtonFromPointerCount n)) s)"
  using assms(2) defined_button [OF assms(1)]
  by (simp add: onTap_def Let_def getCursorPosition_def)

lemma onLongPress_indirect:
  assumes "n = 1 \<or> n = 2 \<or> n = 3" "isIndirectInputMode (mInputStrategy (self w s))"
  shows "onLongPress w n x y consumed s =
           (if consumed
            then self_update w (\<lambda>h. h\<lparr> mIsDragging := True \<rparr>)
                   (emit (ShowInputFeedback (LongPressFeedbackType (mInputStrategy (self w s)))
                            (cursorPosition (mRenderData s)))
                      (emit (StrategyOnPressAndHold w (mouseButtonFromPointerCount n)) s))
            else emit (StrategyOnPressAndHold w (mouseButtonFromPointerCount n)) s)"
  using assms(2) defined_button [OF assms(1)]
  by (simp add: onLongPress_def Let_def getCursorPosition_def)

lemma moveCursorToScreenPoint_effects:
  "effects (moveCursorToScreenPoint w x y s) =
     effects s @
     (if jne (fst (clamp_to_image (mRenderData s) (mapScreenPointToImagePoint s x y)))
             (fst (cursorPosition (mRenderData s))) \<or>
         jne (snd (clamp_to_image (mRenderData s) (mapScreenPointToImagePoint s x y)))
             (snd (cursorPosition (mRenderData s)))
      then [InjectCursorMoveEvent w (f2i (fst (mapScreenPointToImagePoint s x y)))
              (f2i (snd (mapScreenPointToImagePoint s x y)))]
      else []) @
     [RenderStubMoveCursor (clamp_to_image (mRenderData s) (mapScreenPointToImagePoint s x y))]"
  by (simp add: moveCursorToScreenPoint_def Let_def moveCursor_effects)

text \<open>
  Claim C9: a tap or a long press with one, two or three pointers stands for the left, the
  right or the middle button; with any other count it is rejected and nothing happens. In
  the direct input mode a tap or a long press whose screen point lies outside the image
  boundary is rejected and nothing happens: no warp, no call on the strategy. Otherwise the
  cursor is warped to the mapped point first (and stored clamped to the image), the strategy
  is told the button afterwards, and then the feedback is shown if the strategy took the
  event; a long press that was taken starts a drag. In the indirect input mode a tap or a
  long press with one, two or three pointers is always accepted: the strategy is told the
  button and the cursor stays where it is. The epsilon is the float \<open>0.001f\<close>, which is
  8589935 / 2 ^ 33: a mapped point (a, b) lies outside when \<open>a\<close> or \<open>b\<close> is below minus
  epsilon, or \<open>a\<close> above the float sum of the image width and epsilon, or \<open>b\<close> above the
  float sum of the image height and epsilon.
\<close>

theorem tap_button_and_boundary:
  "mouseButtonFromPointerCount 1 = BUTTON_LEFT \<and>
   mouseButtonFromPointerCount 2 = BUTTON_RIGHT \<and>
   mouseButtonFromPointerCount 3 = BUTTON_MIDDLE \<and>
   (n \<noteq> 1 \<and> n \<noteq> 2 \<and> n \<noteq> 3 \<longrightarrow>
      mouseButtonFromPointerCount n = BUTTON_UNDEFINED \<and>
      onTap w n x y consumed s = (False, s) \<and> onLongPress w n x y consumed s = s) \<and>
   (\<not> isIndirectInputMode (mInputStrategy (self w s)) \<and> screenPointLiesOutsideImageBoundary s x y \<longrightarrow>
      onTap w n x y consumed s = (False, s) \<and> onLongPress w n x y consumed s = s) \<and>
   ((n = 1 \<or> n = 2 \<or> n = 3) \<and> \<not> isIndirectInputMode (mInputStrategy (self w s)) \<and>
    \<not> screenPointLiesOutsideImageBoundary s x y \<longrightarrow>
      onTap w n x y consumed s =
        (True,
         if consumed
         then emit (ShowInputFeedback (ShortPressFeedbackType (mInputStrategy (self w s)))
                      (clamp_to_image (mRenderData s) (mapScreenPointToImagePoint s x y)))
                (emit (StrategyOnTap w (mouseButtonFromPointerCount n))
                   (moveCursorToScreenPoint w x y s))
         else emit (StrategyOnTap w (mouseButtonFromPointerCount n))
                (moveCursorToScreenPoint w x y s)) \<and>
      onLongPress w n x y consumed s =
        (if consumed
         then self_update w (\<lambda>h. h\<lparr> mIsDragging := True \<rparr>)
                (emit (ShowInputFeedback (LongPressFeedbackType (mInputStrategy (self w s)))
                         (clamp_to_image (mRenderData s) (mapScreenPointToImagePoint s x y)))
                   (emit (StrategyOnPressAndHold w (mouseButtonFromPointerCount n))
                      (moveCursorToScreenPoint w x y s)))
         else emit (StrategyOnPressAndHold w (mouseButtonFromPointerCount n))
                (moveCursorToScreenPoint w x y s))) \<and>
   ((n = 1 \<or> n = 2 \<or> n = 3) \<and> isIndirectInputMode (mInputStrategy (self w s)) \<longrightarrow>
      onTap w n x y consumed s =
        (True,
         if consumed
         then emit (ShowInputFeedback (ShortPressFeedbackType (mInputStrategy (self w s)))
                      (cursorPosition (mRenderData s)))
                (emit (StrategyOnTap w (mouseButtonFromPointerCount n)) s)
         else emit (StrategyOnTap w (mouseButtonFromPointerCount n)) s) \<and>
      onLongPress w n x y consumed s =
        (if consumed
         then self_update w (\<lambda>h. h\<lparr> mIsDragging := True \<rparr>)
                (emit (ShowInputFeedback (LongPressFeedbackType (mInputStrategy (self w s)))
                         (cursorPosition (mRenderData s)))
                   (emit (StrategyOnPressAndHold w (mouseButtonFromPointerCount n)) s))
         else emit (StrategyOnPressAndHold w (mouseButtonFromPointerCount n)) s)) \<and>
   cursorPosition (mRenderData (moveCursorToScreenPoint w x y s)) =
     clamp_to_image (mRenderData s) (mapScreenPointToImagePoint s x y) \<and>
   effects (moveCursorToScreenPoint w x y s) =
     effects s @
     (if jne (fst (clamp_to_image (mRenderData s) (mapScreenPointToImagePoint s x y)))
             (fst (cursorPosition (mRenderData s))) \<or>
         jne (snd (clamp_to_image (mRenderData s) (mapScreenPointToImagePoint s x y)))
             (snd (cursorPosition (mRenderData s)))
      then [InjectCursorMoveEvent w (f2i (fst (mapScreenPointToImagePoint s x y)))
              (f2i (snd (mapScreenPointToImagePoint s x y)))]
      else []) @
     [RenderStubMoveCursor (clamp_to_image (mRenderData s) (mapScreenPointToImagePoint s x y))] \<and>
   EPSILON = Fin (8589935 / 8589934592) \<and>
   (mapScreenPointToImagePoint s x y = (Fin a, Fin b) \<and>
    jadd (i2f (imageWidth (mRenderData s))) EPSILON = Fin u \<and>
    jadd (i2f (imageHeight (mRenderData s))) EPSILON = Fin v \<longrightarrow>
      screenPointLiesOutsideImageBoundary s x y =
        (a < - (8589935 / 8589934592) \<or> u < a \<or> b < - (8589935 / 8589934592) \<or> v < b))"
proof -
  have buttons: "mouseButtonFromPointerCount 1 = BUTTON_LEFT"
    "mouseButtonFromPointerCount 2 = BUTTON_RIGHT" "mouseButtonFromPointerCount 3 = BUTTON_MIDDLE"
    by (simp_all add: mouseButtonFromPointerCount_def)
  have count: "n \<noteq> 1 \<and> n \<noteq> 2 \<and> n \<noteq> 3 \<longrightarrow>
      mouseButtonFromPointerCount n = BUTTON_UNDEFINED \<and>
      onTap w n x y consumed s = (False, s) \<and> onLongPress w n x y consumed s = s"
    using undefined_button [of n] onTap_rejects_count [of n w x y consumed s]
      onLongPress_rejects_count [of n w x y consumed s]
    by blast
  have outside: "\<not> isIndirectInputMode (mInputStrategy (self w s)) \<and>
      screenPointLiesOutsideImageBoundary s x y \<longrightarrow>
      onTap w n x y consumed s = (False, s) \<and> onLongPress w n x y consumed s = s"
    using onTap_rejects_outside [of w s x y n consumed]
      onLongPress_rejects_outside [of w s x y n consumed]
    by blast
  have direct: "(n = 1 \<or> n = 2 \<or> n = 3) \<and> \<not> isIndirectInputMode (mInputStrategy (self w s)) \<and>
    \<not> screenPointLiesOutsideImageBoundary s x y \<longrightarrow>
      onTap w n x y consumed s =
        (True,
         if consumed
         then emit (ShowInputFeedback (ShortPressFeedbackType (mInputStrategy (self w s)))
                      (clamp_to_image (mRenderData s) (mapScreenPointToImagePoint s x y)))
                (emit (StrategyOnTap w (mouseButtonFromPointerCount n))
                   (moveCursorToScreenPoint w x y s))
         else emit (StrategyOnTap w (mouseButtonFromPointerCount n))
                (moveCursorToScreenPoint w x y s)) \<and>
      onLongPress w n x y consumed s =
        (if consumed
         then self_update w (\<lambda>h. h\<lparr> mIsDragging := True \<rparr>)
                (emit (ShowInputFeedback (LongPressFeedbackType (mInputStrategy (self w s)))
                         (clamp_to_image (mRenderData s) (mapScreenPointToImagePoint s x y)))
                   (emit (StrategyOnPressAndHold w (mouseButtonFromPointerCount n))
                      (moveCursorToScreenPoint w x y s)))
         else emit (StrategyOnPressAndHold w (mouseButtonFromPointerCount n))
                (moveCursorToScreenPoint w x y s))"
    using onTap_direct [of n w s x y consumed] onLongPress_direct [of n w s x y consumed]
    by blast
  have indirect: "(n = 1 \<or> n = 2 \<or> n = 3) \<and> isIndirectInputMode (mInputStrategy (self w s)) \<longrightarrow>
      onTap w n x y consumed s =
        (True,
         if consumed
         then emit (ShowInputFeedback (ShortPressFeedbackType (mInputStrategy (self w s)))
                      (cursorPosition (mRenderData s)))
                (emit (StrategyOnTap w (mouseButtonFromPointerCount n)) s)
         else emit (StrategyOnTap w (mouseButtonFromPointerCount n)) s) \<and>
      onLongPress w n x y consumed s =
        (if consumed
         then self_update w (\<lambda>h. h\<lparr> mIsDragging := True \<rparr>)
                (emit (ShowInputFeedback (LongPressFeedbackType (mInputStrategy (self w s)))
                         (cursorPosition (mRenderData s)))
                   (emit (StrategyOnPressAndHold w (mouseButtonFromPointerCount n)) s))
         else emit (StrategyOnPressAndHold w (mouseButtonFromPointerCount n)) s)"
    using onTap_indirect [of n w s x y consumed] onLongPress_indirect [of n w s x y consumed]
    by blast
  have warp: "cursorPosition (mRenderData (moveCursorToScreenPoint w x y s)) =
      clamp_to_image (mRenderData s) (mapScreenPointToImagePoint s x y)"
    by simp
  have boundary: "mapScreenPointToImagePoint s x y = (Fin a, Fin b) \<and>
    jadd (i2f (imageWidth (mRenderData s))) EPSILON = Fin u \<and>
    jadd (i2f (imageHeight (mRenderData s))) EPSILON = Fin v \<longrightarrow>
      screenPointLiesOutsideImageBoundary s x y =
        (a < - (8589935 / 8589934592) \<or> u < a \<or> b < - (8589935 / 8589934592) \<or> v < b)"
    using outside_finite [of s x y a b u v] by blast
  show ?thesis
    by (intro conjI buttons count outside direct indirect warp moveCursorToScreenPoint_effects
        EPSILON_value boundary)
qed

lemma touch_world_render_data: "mRenderData touch_world = mRenderData same_size_world"
  by (simp add: touch_world_def setInputMode_def)

lemma trackpad_world_render_data: "mRenderData trackpad_world = mRenderData same_size_world"
  by (simp add: trackpad_world_def setInputMode_def)

lemma touch_world_strategy: "mInputStrategy (self Main touch_world) = TouchInputStrategy"
  by (simp add: touch_world_def setInputMode_def TOUCH_def)

lemma trackpad_world_strategy: "mInputStrategy (self Main trackpad_world) = TrackpadInputStrategy"
  by (simp add: trackpad_world_def setInputMode_def TOUCH_def TRACKPAD_def SIMULATED_TOUCH_def)

lemma touch_world_map:
  "mapScreenPointToImagePoint touch_world (Fin 1921) (Fin 0) = (Fin 1921, Fin 0)"
  "mapScreenPointToImagePoint touch_world (Fin 1919) (Fin 0) = (Fin 1919, Fin 0)"
  by (simp_all add: mapScreenPointToImagePoint_def invert_def mapPoints_def Let_def
      touch_world_render_data same_size_render_data)

lemma jadd_Fin_1920_EPSILON: "jadd (Fin 1920) EPSILON = Fin (1966081 / 1024)"
  using jadd_1920_EPSILON by simp

lemma f2i_small [simp]: "f2i (Fin 1919) = 1919" "f2i (Fin 0) = 0"
  by (simp_all add: f2i.simps INT_MAX_def INT_MIN_def)

text \<open>
  Image and view 1920 by 1080, so that the float sum of the image width and epsilon is
  1920 + 1/1024. In the touch mode a tap that maps to (1921, 0) is rejected, one that maps
  to (1919, 0) warps the cursor there and then taps the left button, and a tap of four
  fingers is rejected. In the trackpad mode a tap of two fingers at the same screen point
  (1921, 0) taps the right button and the cursor stays at (960, 540).
\<close>

theorem tap_button_and_boundary_witness:
  "imageWidth (mRenderData touch_world) = 1920 \<and>
   jadd (i2f (imageWidth (mRenderData touch_world))) EPSILON = Fin (1920 + 1 / 1024) \<and>
   mapScreenPointToImagePoint touch_world (Fin 1921) (Fin 0) = (Fin (1920 + 1), Fin 0) \<and>
   onTap Main 1 (Fin 1921) (Fin 0) True touch_world = (False, touch_world) \<and>
   mapScreenPointToImagePoint touch_world (Fin 1919) (Fin 0) = (Fin (1920 - 1), Fin 0) \<and>
   fst (onTap Main 1 (Fin 1919) (Fin 0) True touch_world) \<and>
   cursorPosition (mRenderData (snd (onTap Main 1 (Fin 1919) (Fin 0) True touch_world))) =
     (Fin 1919, Fin 0) \<and>
   effects (snd (onTap Main 1 (Fin 1919) (Fin 0) True touch_world)) =
     effects touch_world @
     [InjectCursorMoveEvent Main 1919 0, RenderStubMoveCursor (Fin 1919, Fin 0),
      StrategyOnTap Main BUTTON_LEFT,
      ShowInputFeedback (ShortPressFeedbackType TouchInputStrategy) (Fin 1919, Fin 0)] \<and>
   onTap Main 4 (Fin 1919) (Fin 0) True touch_world = (False, touch_world) \<and>
   onTap Main 2 (Fin 1921) (Fin 0) True trackpad_world =
     (True, emit (ShowInputFeedback (ShortPressFeedbackType TrackpadInputStrategy) (Fin 960, Fin 540))
              (emit (StrategyOnTap Main BUTTON_RIGHT) trackpad_world)) \<and>
   onLongPress Main 3 (Fin 1921) (Fin 0) False trackpad_world =
     emit (StrategyOnPressAndHold Main BUTTON_MIDDLE) trackpad_world"
proof -
  have rd: "mRenderData touch_world =
     \<lparr> screenWidth = 1920, screenHeight = 1080, imageWidth = 1920, imageHeight = 1080,
       transform = \<lparr> scaleX = Fin 1, scaleY = Fin 1 \<rparr>,
       cursorPosition = (Fin 960, Fin 540) \<rparr>"
    by (simp add: touch_world_render_data same_size_render_data)
  have rd': "cursorPosition (mRenderData trackpad_world) = (Fin 960, Fin 540)"
    by (simp add: trackpad_world_render_data same_size_render_data)
  have direct: "\<not> isIndirectInputMode (mInputStrategy (self Main touch_world))"
    by (simp add: touch_world_strategy)
  have indirect: "isIndirectInputMode (mInputStrategy (self Main trackpad_world))"
    by (simp add: trackpad_world_strategy)
  have width: "jadd (i2f (imageWidth (mRenderData touch_world))) EPSILON = Fin (1966081 / 1024)"
    by (simp only: rd RenderData.simps jadd_1920_EPSILON)
  have height: "jadd (i2f (imageHeight (mRenderData touch_world))) EPSILON = Fin (1105921 / 1024)"
    by (simp only: rd RenderData.simps jadd_1080_EPSILON)
  have far: "screenPointLiesOutsideImageBoundary touch_world (Fin 1921) (Fin 0)"
    using tap_button_and_boundary [of 1 Main "Fin 1921" "Fin 0" True touch_world 1921 0
        "1966081 / 1024" "1105921 / 1024"] touch_world_map(1) width height
    by simp
  have near: "\<not> screenPointLiesOutsideImageBoundary touch_world (Fin 1919) (Fin 0)"
    using tap_button_and_boundary [of 1 Main "Fin 1919" "Fin 0" True touch_world 1919 0
        "1966081 / 1024" "1105921 / 1024"] touch_world_map(2) width height
    by simp
  have clamped: "clamp_to_image (mRenderData touch_world) (Fin 1919, Fin 0) = (Fin 1919, Fin 0)"
    by (simp add: rd clamp_to_image_def clamp_def jle_def)
  have warp: "effects (moveCursorToScreenPoint Main (Fin 1919) (Fin 0) touch_world) =
      effects touch_world @
      [InjectCursorMoveEvent Main 1919 0, RenderStubMoveCursor (Fin 1919, Fin 0)]"
    using tap_button_and_boundary [of 1 Main "Fin 1919" "Fin 0" True touch_world 1919 0
        "1966081 / 1024" "1105921 / 1024"]
    by (simp add: touch_world_map clamped) (simp add: rd jne_def jeq_def)
  have rejected: "onTap Main 1 (Fin 1921) (Fin 0) True touch_world = (False, touch_world)"
    using tap_button_and_boundary [of 1 Main "Fin 1921" "Fin 0" True touch_world 1921 0
        "1966081 / 1024" "1105921 / 1024"] direct far by blast
  have accepted: "onTap Main 1 (Fin 1919) (Fin 0) True touch_world =
      (True, emit (ShowInputFeedback (ShortPressFeedbackType TouchInputStrategy) (Fin 1919, Fin 0))
               (emit (StrategyOnTap Main BUTTON_LEFT)
                  (moveCursorToScreenPoint Main (Fin 1919) (Fin 0) touch_world)))"
    using tap_button_and_boundary [of 1 Main "Fin 1919" "Fin 0" True touch_world 1919 0
        "1966081 / 1024" "1105921 / 1024"] direct near
    by (simp add: touch_world_map clamped touch_world_strategy)
  have four: "onTap Main 4 (Fin 1919) (Fin 0) True touch_world = (False, touch_world)"
    using tap_button_and_boundary [of 4 Main "Fin 1919" "Fin 0" True touch_world 1919 0
        "1966081 / 1024" "1105921 / 1024"] by simp
  have two: "onTap Main 2 (Fin 1921) (Fin 0) True trackpad_world =
     (True, emit (ShowInputFeedback (ShortPressFeedbackType TrackpadInputStrategy) (Fin 960, Fin 540))
              (emit (StrategyOnTap Main BUTTON_RIGHT) trackpad_world))"
    using tap_button_and_boundary [of 2 Main "Fin 1921" "Fin 0" True trackpad_world 1921 0
        "1966081 / 1024" "1105921 / 1024"] indirect
    by (simp add: trackpad_world_strategy rd')
  have hold: "onLongPress Main 3 (Fin 1921) (Fin 0) False trackpad_world =
     emit (StrategyOnPressAndHold Main BUTTON_MIDDLE) trackpad_world"
    using tap_button_and_boundary [of 3 Main "Fin 1921" "Fin 0" False trackpad_world 1921 0
        "1966081 / 1024" "1105921 / 1024"] indirect
    by (simp add: trackpad_world_strategy)
  have cursor: "cursorPosition (mRenderData (moveCursorToScreenPoint Main (Fin 1919) (Fin 0)
      touch_world)) = (Fin 1919, Fin 0)"
    by (simp add: touch_world_map clamped)
  show ?thesis
    using rejected four two hold
    by (simp add: accepted warp cursor touch_world_map)
       (simp add: rd jadd_Fin_1920_EPSILON clamp_to_image_def clamp_def jle_def)
qed

subsection \<open>Events of other tools\<close>

text \<open>
  Claim C10: when the tool type of the acting pointer is neither mouse nor finger,
  \<open>handleTouchEvent\<close> answers false and leaves the handler, the render data and the
  injector as they were; no detector sees the event and nothing is sent. The only call it
  makes is the focus request on an unfocused view at \<open>ACTION_DOWN\<close>, which precedes the
  test of the tool type.
\<close>

theorem other_tool_types_are_ignored:
  assumes "getToolType e (getActionIndex e) = Some toolType"
    and "toolType \<noteq> TOOL_TYPE_MOUSE" and "toolType \<noteq> TOOL_TYPE_FINGER"
  shows "handleTouchEvent w v d e s =
           Inr (False, if \<not> isFocused v \<and> getAction e = ACTION_DOWN then emit RequestFocus s else s)"
  using assms by (simp add: handleTouchEvent.simps [of w v d e s] Let_def)

lemma stylus_tool:
  "getToolType (stylus a x y) 0 = Some TOOL_TYPE_STYLUS"
  by (simp add: getToolType_def stylus_def finger_def getPointerCount_def)

text \<open>A stylus event: a move, and a first touch on an unfocused view.\<close>

theorem other_tool_types_are_ignored_witness:
  "getToolType (stylus ACTION_MOVE 100 100) (getActionIndex (stylus ACTION_MOVE 100 100)) =
     Some TOOL_TYPE_STYLUS \<and>
   handleTouchEvent Main unfocused_view no_callbacks (stylus ACTION_MOVE 100 100) sized_world =
     Inr (False, sized_world) \<and>
   handleTouchEvent Main unfocused_view no_callbacks (stylus ACTION_DOWN 100 100) sized_world =
     Inr (False, emit RequestFocus sized_world)"
proof -
  have index: "getActionIndex (stylus ACTION_MOVE 100 100) = 0"
    "getActionIndex (stylus ACTION_DOWN 100 100) = 0"
    by (simp_all add: getActionIndex_def stylus_def finger_def ACTION_MOVE_def ACTION_DOWN_def)
  have tool: "getToolType (stylus ACTION_MOVE 100 100) (getActionIndex (stylus ACTION_MOVE 100 100)) =
      Some TOOL_TYPE_STYLUS"
    "getToolType (stylus ACTION_DOWN 100 100) (getActionIndex (stylus ACTION_DOWN 100 100)) =
      Some TOOL_TYPE_STYLUS"
    by (simp_all add: index stylus_tool)
  have other: "TOOL_TYPE_STYLUS \<noteq> TOOL_TYPE_MOUSE" "TOOL_TYPE_STYLUS \<noteq> TOOL_TYPE_FINGER"
    by (simp_all add: TOOL_TYPE_STYLUS_def TOOL_TYPE_MOUSE_def TOOL_TYPE_FINGER_def)
  have action: "getAction (stylus ACTION_MOVE 100 100) \<noteq> ACTION_DOWN"
    "getAction (stylus ACTION_DOWN 100 100) = ACTION_DOWN" "\<not> isFocused unfocused_view"
    by (simp_all add: stylus_def finger_def ACTION_MOVE_def ACTION_DOWN_def unfocused_view_def)
  show ?thesis
    using other_tool_types_are_ignored [OF tool(1) other, of Main unfocused_view no_callbacks sized_world]
      other_tool_types_are_ignored [OF tool(2) other, of Main unfocused_view no_callbacks sized_world]
    by (simp add: tool action)
qed

end
